theory Spec2Isabelle
  imports Main "HOL-Library.Word"
begin

section \<open>Strings of the script\<close>

text \<open>
  A JavaScript string is a sequence of UTF-16 code units, and \<open>length\<close>, \<open>substring\<close> and the
  selection offsets of the textarea count code units. All the literals of \<open>script.js\<close> lie in the
  Basic Multilingual Plane, so each of their characters is one code unit.
\<close>

type_synonym jschar = "16 word"

type_synonym jsstring = "jschar list"

definition ascii :: "string \<Rightarrow> jsstring" where
  "ascii s = map of_char s"

definition nl :: jschar where
  "nl = 0x0A"

text \<open>\<open>String(n)\<close> for a non-negative integer below \<open>10\<^sup>2\<^sup>1\<close>: its decimal digits.\<close>

fun Number_toString :: "nat \<Rightarrow> jsstring" where
  "Number_toString n =
     (if n < 10 then [of_nat (48 + n)]
      else Number_toString (n div 10) @ [of_nat (48 + n mod 10)])"

declare Number_toString.simps [simp del]

text \<open>\<open>s.split(c)\<close> for a one-character separator: the pieces between the occurrences of \<open>c\<close>.\<close>

fun split_from :: "jschar \<Rightarrow> jsstring \<Rightarrow> jsstring \<Rightarrow> jsstring list" where
  "split_from c piece [] = [rev piece]"
| "split_from c piece (x # xs) =
     (if x = c then rev piece # split_from c [] xs else split_from c (x # piece) xs)"

definition split :: "jschar \<Rightarrow> jsstring \<Rightarrow> jsstring list" where
  "split c s = split_from c [] s"

text \<open>\<open>xs.join(sep)\<close>.\<close>

fun join :: "jsstring \<Rightarrow> jsstring list \<Rightarrow> jsstring" where
  "join sep [] = []"
| "join sep [x] = x"
| "join sep (x # y # ys) = x @ sep @ join sep (y # ys)"

text \<open>\<open>s.repeat(n)\<close>.\<close>

fun repeat :: "nat \<Rightarrow> jsstring \<Rightarrow> jsstring" where
  "repeat 0 s = []"
| "repeat (Suc n) s = s @ repeat n s"

section \<open>The page\<close>

text \<open>
  What a JavaScript call can throw: the \<open>RangeError\<close> of \<open>Array(n)\<close> and \<open>repeat\<close>, the
  \<open>TypeError\<close> of a property read on \<open>null\<close>, the \<open>QuotaExceededError\<close> of
  \<open>localStorage.setItem\<close>, and whatever one of the two converter libraries throws.
\<close>

datatype exn = RangeError | TypeError | QuotaExceededError | Thrown jsstring

text \<open>
  The libraries and the browser facts the script is parameterised by: \<open>marked.parse\<close>,
  \<open>turndownService.turndown\<close>, the effect of a rich-text \<open>document.execCommand\<close> on the
  content of the editable view, \<open>document.queryCommandSupported('insertText')\<close>, and the
  quota of the storage, in code units of key and value.
\<close>

record env =
  marked_parse :: "jsstring \<Rightarrow> exn + jsstring"
  turndown :: "jsstring \<Rightarrow> exn + jsstring"
  execCommand_rich :: "jsstring \<Rightarrow> jsstring option \<Rightarrow> jsstring \<Rightarrow> jsstring"
  insertText_supported :: bool
  storage_quota :: nat

text \<open>The two debounced wrappers of lines 33 and 39; a timer's callback runs the function of one of them.\<close>

datatype debounced = CodeToVisual | VisualToCode

text \<open>A timer of the browser: its handle, the time at which it is due, its callback.\<close>

type_synonym timer = "nat \<times> nat \<times> debounced"

text \<open>A field specification passed to \<open>showCustomPrompt\<close>: id, label, type, defaultValue.\<close>

record field_spec =
  f_id :: jsstring
  f_label :: jsstring
  f_type :: "jsstring option"
  f_defaultValue :: "jsstring option"

text \<open>A label and its input element, as appended to \<open>modalInputs\<close> on line 115.\<close>

record input_el =
  lbl_textContent :: jsstring
  inp_type :: jsstring
  inp_id :: jsstring
  inp_value :: jsstring

text \<open>The async command that awaits the promise of \<open>showCustomPrompt\<close>.\<close>

datatype awaiting = AwaitInsertImage | AwaitInsertMarkdownTable

text \<open>
  The state the script reads and writes. The DOM properties are plain variables: a read gives
  what was last written. So \<open>visual_innerHTML\<close> stands for the tree of the rich view, known
  by the HTML it was last built from (the browser's getter would serialise that tree anew),
  and \<open>editor_value\<close> is the text as written (a textarea gives a carriage return back as a
  line feed; no text of the script holds one). \<open>timers\<close> is the browser's table of the timers that have not fired and
  have not been cleared, in the order of their creation; \<open>timeout_c2v\<close> and \<open>timeout_v2c\<close> are
  the variables \<open>timeout\<close> of the two closures made by \<open>debounce\<close> (\<open>None\<close> is
  \<open>undefined\<close>); \<open>modal_onclick\<close> is the pair of handlers \<open>modalConfirm.onclick\<close> and
  \<open>modalCancel.onclick\<close>, which are set and cleared together and capture the fields and the
  promise's \<open>resolve\<close>; \<open>uncaught\<close> is what the browser reports of the exceptions that leave
  a callback.
\<close>

record page =
  editor_value :: jsstring
  selectionStart :: nat
  selectionEnd :: nat
  visual_innerHTML :: jsstring
  gutter_innerHTML :: jsstring
  localStorage :: "jsstring \<rightharpoonup> jsstring"
  modalTitle_textContent :: jsstring
  modalInputs :: "input_el list"
  customModal_display :: jsstring
  modal_onclick :: "(field_spec list \<times> awaiting) option"
  timers :: "timer list"
  next_timer :: nat
  timeout_c2v :: "nat option"
  timeout_v2c :: "nat option"
  clock :: nat
  uncaught :: "exn list"

text \<open>
  An assignment to \<open>editor.value\<close>. The browser moves the cursor of a textarea to the end of the
  text when a script changes its value.
\<close>

definition set_editor_value :: "jsstring \<Rightarrow> page \<Rightarrow> page" where
  "set_editor_value v w =
     (if v = editor_value w then w
      else w\<lparr>editor_value := v, selectionStart := length v, selectionEnd := length v\<rparr>)"

section \<open>Utils (lines 15 to 30)\<close>

definition clearTimeout :: "nat option \<Rightarrow> page \<Rightarrow> page" where
  "clearTimeout h w = w\<lparr>timers := filter (\<lambda>t. Some (fst t) \<noteq> h) (timers w)\<rparr>"

definition setTimeout :: "debounced \<Rightarrow> nat \<Rightarrow> page \<Rightarrow> nat \<times> page" where
  "setTimeout cb wait w =
     (next_timer w,
      w\<lparr>timers := timers w @ [(next_timer w, clock w + wait, cb)],
        next_timer := next_timer w + 1\<rparr>)"

definition get_timeout :: "debounced \<Rightarrow> page \<Rightarrow> nat option" where
  "get_timeout d w = (case d of CodeToVisual \<Rightarrow> timeout_c2v w | VisualToCode \<Rightarrow> timeout_v2c w)"

definition set_timeout :: "debounced \<Rightarrow> nat option \<Rightarrow> page \<Rightarrow> page" where
  "set_timeout d h w =
     (case d of CodeToVisual \<Rightarrow> w\<lparr>timeout_c2v := h\<rparr> | VisualToCode \<Rightarrow> w\<lparr>timeout_v2c := h\<rparr>)"

text \<open>
  A call of the function that \<open>debounce(func, wait)\<close> returns, for the wrapper \<open>d\<close> (lines 17
  to 20): clear the timer whose handle is in the closure's \<open>timeout\<close>, start a new one.
\<close>

definition debounce :: "debounced \<Rightarrow> nat \<Rightarrow> page \<Rightarrow> page" where
  "debounce d wait w =
     (let w1 = clearTimeout (get_timeout d w) w;
          (h, w2) = setTimeout d wait w1
      in set_timeout d (Some h) w2)"

definition md_content :: jsstring where
  "md_content = ascii ''md_content''"

text \<open>
  \<open>localStorage.setItem\<close> stores the value when key and value fit the quota, and otherwise
  throws \<open>QuotaExceededError\<close> and leaves the storage as it was (the script writes this one
  key; the other items of the origin are not modelled). No caller catches the exception.
  A function that throws gives \<open>Inl\<close> of the exception and of the page as it left it.
\<close>

definition saveToLocal :: "env \<Rightarrow> page \<Rightarrow> (exn \<times> page) + page" where
  "saveToLocal e w =
     (if length md_content + length (editor_value w) \<le> storage_quota e
      then Inr (w\<lparr>localStorage := (localStorage w)(md_content \<mapsto> editor_value w)\<rparr>)
      else Inl (QuotaExceededError, w))"

definition gutter_of :: "jsstring \<Rightarrow> jsstring" where
  "gutter_of v =
     (let lines = length (split nl v)
      in join (ascii ''<br>'') (map (\<lambda>i. Number_toString (i + 1)) [0..<lines]))"

definition updateGutter :: "page \<Rightarrow> page" where
  "updateGutter w = w\<lparr>gutter_innerHTML := gutter_of (editor_value w)\<rparr>"

section \<open>Sync logic (lines 33 to 47)\<close>

text \<open>
  The functions passed to \<open>debounce\<close>. A converter that throws ends the function before its
  first assignment; \<open>saveToLocal\<close> is the last call, so when it throws the view and the gutter
  have been written.
\<close>

definition syncCodeToVisual_func :: "env \<Rightarrow> page \<Rightarrow> (exn \<times> page) + page" where
  "syncCodeToVisual_func e w =
     (case marked_parse e (editor_value w) of
        Inl x \<Rightarrow> Inl (x, w)
      | Inr html \<Rightarrow> saveToLocal e (updateGutter (w\<lparr>visual_innerHTML := html\<rparr>)))"

definition syncVisualToCode_func :: "env \<Rightarrow> page \<Rightarrow> (exn \<times> page) + page" where
  "syncVisualToCode_func e w =
     (case turndown e (visual_innerHTML w) of
        Inl x \<Rightarrow> Inl (x, w)
      | Inr md \<Rightarrow> saveToLocal e (updateGutter (set_editor_value md w)))"

definition syncCodeToVisual :: "page \<Rightarrow> page" where
  "syncCodeToVisual = debounce CodeToVisual 50"

definition syncVisualToCode :: "page \<Rightarrow> page" where
  "syncVisualToCode = debounce VisualToCode 50"

text \<open>
  The function a timer's callback applies (line 19), and the task the browser runs when the
  timer fires: an exception that leaves the callback is reported and the page stays as the
  callback left it.
\<close>

definition func :: "env \<Rightarrow> debounced \<Rightarrow> page \<Rightarrow> (exn \<times> page) + page" where
  "func e d w =
     (case d of CodeToVisual \<Rightarrow> syncCodeToVisual_func e w
              | VisualToCode \<Rightarrow> syncVisualToCode_func e w)"

definition run_task :: "env \<Rightarrow> debounced \<Rightarrow> page \<Rightarrow> page" where
  "run_task e d w =
     (case func e d w of
        Inl (x, w') \<Rightarrow> w'\<lparr>uncaught := uncaught w' @ [x]\<rparr>
      | Inr w' \<Rightarrow> w')"

text \<open>
  The listeners of lines 46 and 47, with the user's edit that makes the browser dispatch the
  \<open>input\<close> event: new text and cursor position in the markup view, new content in the rich
  view. An assignment by the script dispatches no \<open>input\<close> event (the comment of line 67).
\<close>

datatype input = EditorInput jsstring nat | VisualInput jsstring

definition wrapper_of :: "input \<Rightarrow> debounced" where
  "wrapper_of i = (case i of EditorInput v pos \<Rightarrow> CodeToVisual | VisualInput t \<Rightarrow> VisualToCode)"

definition dispatch_input :: "input \<Rightarrow> page \<Rightarrow> page" where
  "dispatch_input i w =
     (case i of
        EditorInput v pos \<Rightarrow>
          syncCodeToVisual
            (w\<lparr>editor_value := v, selectionStart := min pos (length v),
               selectionEnd := min pos (length v)\<rparr>)
      | VisualInput t \<Rightarrow> syncVisualToCode (w\<lparr>visual_innerHTML := t\<rparr>))"

section \<open>The event loop\<close>

text \<open>
  When nothing else happens the browser runs the timers that are due, the oldest first (all
  timers of the script have the same delay, so the oldest is the one due first).
  \<open>drain\<close> returns the callbacks it ran, in order, and the page they leave.
\<close>

definition due :: "page \<Rightarrow> timer \<Rightarrow> bool" where
  "due w t = (fst (snd t) \<le> clock w)"

function drain :: "env \<Rightarrow> page \<Rightarrow> debounced list \<times> page" where
  "drain e w =
     (case find (due w) (timers w) of
        None \<Rightarrow> ([], w)
      | Some t \<Rightarrow>
          (let w1 = run_task e (snd (snd t)) (w\<lparr>timers := remove1 t (timers w)\<rparr>);
               r = drain e w1
           in (snd (snd t) # fst r, snd r)))"
  by pat_completeness auto
termination
proof (relation "measure (\<lambda>(e, w). length (timers w))", goal_cases)
  case 1
  show ?case by simp
next
  case (2 e w t x)
  from 2(1) have "t \<in> set (timers w)"
    by (auto simp: find_Some_iff)
  then have "length (remove1 t (timers w)) < length (timers w)"
    using length_pos_if_in_set [of t "timers w"] by (simp add: length_remove1)
  moreover have "timers x = remove1 t (timers w)"
    unfolding 2(2)
    by (cases "snd (snd t)")
       (auto simp: run_task_def func_def syncCodeToVisual_func_def syncVisualToCode_func_def
          saveToLocal_def updateGutter_def set_editor_value_def split: sum.splits if_splits)
  ultimately show ?case by simp
qed

declare drain.simps [simp del]

text \<open>Time passes by \<open>dt\<close> milliseconds with no other event.\<close>

definition elapse :: "env \<Rightarrow> nat \<Rightarrow> page \<Rightarrow> debounced list \<times> page" where
  "elapse e dt w = drain e (w\<lparr>clock := clock w + dt\<rparr>)"

text \<open>A burst of user edits: before each edit, some time passes.\<close>

fun burst :: "env \<Rightarrow> (nat \<times> input) list \<Rightarrow> page \<Rightarrow> debounced list \<times> page" where
  "burst e [] w = ([], w)"
| "burst e ((g, i) # rest) w =
     (let r1 = elapse e g w;
          r2 = burst e rest (dispatch_input i (snd r1))
      in (fst r1 @ fst r2, snd r2))"

section \<open>Commands (lines 51 to 104)\<close>

text \<open>
  \<open>execCmd\<close> is called from the toolbar of the rich view and from the Ctrl+Z and Ctrl+Y handler,
  which runs only when the markup view does not have the focus (line 214): the document
  command acts on the rich view, and the browser dispatches \<open>input\<close> there when the content
  changed.
\<close>

definition execCmd :: "env \<Rightarrow> jsstring \<Rightarrow> jsstring option \<Rightarrow> page \<Rightarrow> page" where
  "execCmd e command val w =
     (let t = execCommand_rich e command val (visual_innerHTML w);
          w1 = (if t = visual_innerHTML w then w else dispatch_input (VisualInput t) w)
      in syncVisualToCode w1)"

text \<open>
  An assignment to \<open>selectionStart\<close> and \<open>selectionEnd\<close> of the same number (lines 66 and 73).
  The DOM converts the number to an unsigned long and limits it to the length of the text.
\<close>

definition set_cursor :: "int \<Rightarrow> page \<Rightarrow> page" where
  "set_cursor p w =
     (let pos = min (nat (p mod 4294967296)) (length (editor_value w))
      in w\<lparr>selectionStart := pos, selectionEnd := pos\<rparr>)"

text \<open>The selection replaced by the text, as both branches of lines 59 to 68 compute it.\<close>

definition replace_selection :: "jsstring \<Rightarrow> page \<Rightarrow> jsstring" where
  "replace_selection text w =
     take (selectionStart w) (editor_value w) @ text @ drop (selectionEnd w) (editor_value w)"

text \<open>
  In the first branch the browser inserts the text, leaves the cursor after it and dispatches
  \<open>input\<close> at the markup view; in the second the script does the same by hand. The focus
  that line 57 gives to the markup view is not part of the page modelled here.
\<close>

definition insertTextAtCursor :: "env \<Rightarrow> jsstring \<Rightarrow> int \<Rightarrow> page \<Rightarrow> page" where
  "insertTextAtCursor e text selectionOffset w =
     (let w1 =
        (if insertText_supported e
         then dispatch_input
                (EditorInput (replace_selection text w) (selectionStart w + length text)) w
         else (let start = selectionStart w;
                   w' = set_editor_value (replace_selection text w) w;
                   w'' = set_cursor (int start + int (length text)) w'
               in syncCodeToVisual w''))
      in if selectionOffset > 0
         then set_cursor (int (selectionEnd w1) - selectionOffset) w1
         else w1)"

definition code_block :: jsstring where
  "code_block =
     [nl] @ ascii ''```javascript'' @ [nl] @ ascii ''// ''
     @ [0x5DB, 0x5EA, 0x5D5, 0x5D1, 0x20, 0x5D0, 0x5EA, 0x20, 0x5D4, 0x5E7, 0x5D5, 0x5D3, 0x20,
        0x5E9, 0x5DC, 0x5DA, 0x20, 0x5DB, 0x5D0, 0x5DF]
     @ [nl] @ ascii ''```'' @ [nl, nl]"

definition insertCode :: "env \<Rightarrow> page \<Rightarrow> page" where
  "insertCode e w = insertTextAtCursor e code_block 4 w"

text \<open>
  \<open>parseInt(s)\<close> with no radix; \<open>None\<close> as argument is \<open>undefined\<close>, \<open>None\<close> as result is
  \<open>NaN\<close>. The result is the exact integer: a double is exact up to \<open>2\<^sup>5\<^sup>3\<close>, and beyond
  it \<open>insertMarkdownTable\<close> throws whatever the rounding.
\<close>

definition StrWhiteSpaceChar :: "jschar \<Rightarrow> bool" where
  "StrWhiteSpaceChar c \<longleftrightarrow>
     c \<in> set [0x09, 0x0A, 0x0B, 0x0C, 0x0D, 0x20, 0xA0, 0x1680, 0x2000, 0x2001, 0x2002, 0x2003,
              0x2004, 0x2005, 0x2006, 0x2007, 0x2008, 0x2009, 0x200A, 0x2028, 0x2029, 0x202F,
              0x205F, 0x3000, 0xFEFF]"

definition digit_value :: "jschar \<Rightarrow> nat" where
  "digit_value c =
     (if 0x30 \<le> c \<and> c \<le> 0x39 then unat c - 48
      else if 0x61 \<le> c \<and> c \<le> 0x7A then unat c - 87
      else if 0x41 \<le> c \<and> c \<le> 0x5A then unat c - 55
      else 36)"

definition parseInt :: "jsstring option \<Rightarrow> int option" where
  "parseInt arg =
     (let inputString = (case arg of None \<Rightarrow> ascii ''undefined'' | Some s \<Rightarrow> s);
          S = dropWhile StrWhiteSpaceChar inputString;
          sign = (if take 1 S = ascii ''-'' then - 1 else (1 :: int));
          S1 = (if take 1 S = ascii ''-'' \<or> take 1 S = ascii ''+'' then drop 1 S else S);
          hex = (take 2 S1 = ascii ''0x'' \<or> take 2 S1 = ascii ''0X'');
          R = (if hex then 16 else 10);
          S2 = (if hex then drop 2 S1 else S1);
          Z = takeWhile (\<lambda>c. digit_value c < R) S2
      in if Z = [] then None
         else Some (sign * int (foldl (\<lambda>a c. a * R + digit_value c) 0 Z)))"

text \<open>\<open>x || d\<close> for a number \<open>x\<close>: \<open>NaN\<close> and zero are falsy.\<close>

definition number_or :: "int option \<Rightarrow> int \<Rightarrow> int" where
  "number_or x d = (case x of None \<Rightarrow> d | Some n \<Rightarrow> if n = 0 then d else n)"

text \<open>\<open>x || d\<close> for a string \<open>x\<close> that may be \<open>undefined\<close>: both it and the empty string are falsy.\<close>

definition string_or :: "jsstring option \<Rightarrow> jsstring \<Rightarrow> jsstring" where
  "string_or x d = (case x of None \<Rightarrow> d | Some s \<Rightarrow> if s = [] then d else s)"

text \<open>The template \<open>| ${cells.join(' | ')} |\n\<close> of lines 99 to 101.\<close>

definition table_row :: "jsstring list \<Rightarrow> jsstring" where
  "table_row cells = ascii ''| '' @ join (ascii '' | '') cells @ ascii '' |'' @ [nl]"

definition header_word :: jsstring where
  "header_word = [0x5DB, 0x5D5, 0x5EA, 0x5E8, 0x5EA]"

definition data_word :: jsstring where
  "data_word = [0x5E0, 0x5EA, 0x5D5, 0x5E0, 0x5D9, 0x5DD]"

text \<open>
  Lines 96 to 103: the text of the table for the strings \<open>results.rows\<close> and \<open>results.cols\<close>.
  \<open>Array(cols)\<close> throws above \<open>2\<^sup>3\<^sup>2 - 1\<close>, and \<open>repeat\<close> when the string would be longer
  than \<open>2\<^sup>5\<^sup>3 - 1\<close>, the bound of the language; a browser throws the same error
  sooner, at its own limit on the length of a string, which is not modelled.
\<close>

definition table_text :: "jsstring option \<Rightarrow> jsstring option \<Rightarrow> exn + jsstring" where
  "table_text results_rows results_cols =
     (let rows = max 2 (number_or (parseInt results_rows) 3);
          cols = max 1 (number_or (parseInt results_cols) 2)
      in if cols > 4294967295 then Inl RangeError
         else
           (let header =
                  table_row
                    (map (\<lambda>i. header_word @ ascii '' '' @ Number_toString (i + 1)) [0..<nat cols]);
                sep = table_row (replicate (nat cols) (ascii ''---''));
                data_row = table_row (replicate (nat cols) data_word)
            in if (rows - 1) * int (length data_row) > 9007199254740991 then Inl RangeError
               else Inr ([nl] @ header @ sep @ repeat (nat (rows - 1)) data_row @ [nl])))"

definition image_text :: "jsstring option \<Rightarrow> jsstring option \<Rightarrow> jsstring" where
  "image_text results_alt results_url =
     ascii ''!['' @ string_or results_alt [0x5EA, 0x5DE, 0x5D5, 0x5E0, 0x5D4] @ ascii '']('' 
     @ (case results_url of None \<Rightarrow> ascii ''undefined'' | Some u \<Rightarrow> u) @ ascii '')'' @ [nl, nl]"

section \<open>Modal (lines 107 to 132)\<close>

text \<open>
  What the browser keeps of a value given to an input element: for the type \<open>number\<close> the
  value if it is a valid floating-point number (an optional minus sign, digits or digits
  with a fraction or a fraction alone, an optional exponent) and the empty string
  otherwise; for the type \<open>text\<close> the value without its line breaks.
\<close>

definition ASCII_digit :: "jschar \<Rightarrow> bool" where
  "ASCII_digit c \<longleftrightarrow> 0x30 \<le> c \<and> c \<le> 0x39"

definition valid_floating_point_number :: "jsstring \<Rightarrow> bool" where
  "valid_floating_point_number s =
     (let s1 = (if take 1 s = ascii ''-'' then drop 1 s else s);
          int_part = takeWhile ASCII_digit s1;
          r1 = dropWhile ASCII_digit s1;
          dot = (take 1 r1 = ascii ''.'');
          frac = (if dot then takeWhile ASCII_digit (drop 1 r1) else []);
          r2 = (if dot then dropWhile ASCII_digit (drop 1 r1) else r1);
          mantissa = (if dot then frac \<noteq> [] else int_part \<noteq> []);
          r3 = drop 1 r2;
          r4 = (if take 1 r3 = ascii ''-'' \<or> take 1 r3 = ascii ''+'' then drop 1 r3 else r3)
      in mantissa
         \<and> (if r2 = [] then True
             else (take 1 r2 = ascii ''e'' \<or> take 1 r2 = ascii ''E'')
                  \<and> r4 \<noteq> [] \<and> list_all ASCII_digit r4))"

definition sanitize :: "jsstring \<Rightarrow> jsstring \<Rightarrow> jsstring" where
  "sanitize ty v =
     (if ty = ascii ''number'' then (if valid_floating_point_number v then v else [])
      else if ty = ascii ''text'' then filter (\<lambda>c. c \<noteq> 0x0A \<and> c \<noteq> 0x0D) v
      else v)"

text \<open>\<open>showCustomPrompt\<close> up to the return of the promise, for the command \<open>k\<close> that awaits it.\<close>

definition showCustomPrompt :: "jsstring \<Rightarrow> field_spec list \<Rightarrow> awaiting \<Rightarrow> page \<Rightarrow> page" where
  "showCustomPrompt title specs k w =
     w\<lparr>modalTitle_textContent := title,
       modalInputs :=
         map (\<lambda>f. \<lparr>lbl_textContent = f_label f,
                   inp_type = string_or (f_type f) (ascii ''text''),
                   inp_id = f_id f,
                   inp_value =
                     sanitize (string_or (f_type f) (ascii ''text''))
                       (string_or (f_defaultValue f) [])\<rparr>) specs,
       customModal_display := ascii ''flex'',
       modal_onclick := Some (specs, k)\<rparr>"

definition image_fields :: "field_spec list" where
  "image_fields =
     [\<lparr>f_id = ascii ''url'',
       f_label = [0x5DB, 0x5EA, 0x5D5, 0x5D1, 0x5EA, 0x20, 0x55, 0x52, 0x4C, 0x20, 0x5DC, 0x5EA,
                  0x5DE, 0x5D5, 0x5E0, 0x5D4],
       f_type = None, f_defaultValue = Some (ascii ''https://'')\<rparr>,
      \<lparr>f_id = ascii ''alt'',
       f_label = [0x5D8, 0x5E7, 0x5E1, 0x5D8, 0x20, 0x5D7, 0x5DC, 0x5D5, 0x5E4, 0x5D9, 0x20]
                 @ ascii ''(Alt Text)'',
       f_type = None, f_defaultValue = None\<rparr>]"

definition table_fields :: "field_spec list" where
  "table_fields =
     [\<lparr>f_id = ascii ''rows'', f_label = [0x5E9, 0x5D5, 0x5E8, 0x5D5, 0x5EA],
       f_type = Some (ascii ''number''), f_defaultValue = Some (ascii ''3'')\<rparr>,
      \<lparr>f_id = ascii ''cols'', f_label = [0x5E2, 0x5DE, 0x5D5, 0x5D3, 0x5D5, 0x5EA],
       f_type = Some (ascii ''number''), f_defaultValue = Some (ascii ''2'')\<rparr>]"

text \<open>The two async commands up to their \<open>await\<close> (lines 82 and 90).\<close>

definition insertImage :: "page \<Rightarrow> page" where
  "insertImage w =
     showCustomPrompt [0x5D4, 0x5D5, 0x5E1, 0x5E4, 0x5EA, 0x20, 0x5EA, 0x5DE, 0x5D5, 0x5E0, 0x5D4]
       image_fields AwaitInsertImage w"

definition insertMarkdownTable :: "page \<Rightarrow> page" where
  "insertMarkdownTable w =
     showCustomPrompt [0x5D9, 0x5E6, 0x5D9, 0x5E8, 0x5EA, 0x20, 0x5D8, 0x5D1, 0x5DC, 0x5D4]
       table_fields AwaitInsertMarkdownTable w"

text \<open>
  The rest of the two commands, from the value \<open>results\<close> the promise resolved to
  (lines 86 and 94 to 103); \<open>None\<close> is \<open>null\<close>.
\<close>

definition resume ::
  "env \<Rightarrow> awaiting \<Rightarrow> (jsstring \<rightharpoonup> jsstring) option \<Rightarrow> page \<Rightarrow> exn + page" where
  "resume e k results w =
     (case k of
        AwaitInsertImage \<Rightarrow>
          (case results of
             None \<Rightarrow> Inr w
           | Some res \<Rightarrow>
               Inr (insertTextAtCursor e (image_text (res (ascii ''alt'')) (res (ascii ''url''))) 0 w))
      | AwaitInsertMarkdownTable \<Rightarrow>
          (case results of
             None \<Rightarrow> Inr w
           | Some res \<Rightarrow>
               (case table_text (res (ascii ''rows'')) (res (ascii ''cols'')) of
                  Inl x \<Rightarrow> Inl x
                | Inr text \<Rightarrow> Inr (insertTextAtCursor e text 0 w))))"

text \<open>\<open>close(val)\<close> (lines 119 to 123): hide the modal, drop the handlers, resolve the promise.\<close>

definition close :: "env \<Rightarrow> awaiting \<Rightarrow> (jsstring \<rightharpoonup> jsstring) option \<Rightarrow> page \<Rightarrow> page" where
  "close e k val w =
     (let w1 = w\<lparr>customModal_display := ascii ''none'', modal_onclick := None\<rparr>
      in case resume e k val w1 of
           Inl x \<Rightarrow> w1\<lparr>uncaught := uncaught w1 @ [x]\<rparr>
         | Inr w2 \<Rightarrow> w2)"

text \<open>
  \<open>document.getElementById(id).value\<close> for an input of the modal (the ids of the fields are
  taken to be those of no other element of the document); a missing element is \<open>null\<close>.
\<close>

definition getElementById_value :: "jsstring \<Rightarrow> page \<Rightarrow> exn + jsstring" where
  "getElementById_value x w =
     (case find (\<lambda>i. inp_id i = x) (modalInputs w) of
        None \<Rightarrow> Inl TypeError
      | Some i \<Rightarrow> Inr (inp_value i))"

text \<open>The loop of line 127.\<close>

fun collect ::
  "field_spec list \<Rightarrow> page \<Rightarrow> (jsstring \<rightharpoonup> jsstring) \<Rightarrow> exn + (jsstring \<rightharpoonup> jsstring)" where
  "collect [] w res = Inr res"
| "collect (f # fs) w res =
     (case getElementById_value (f_id f) w of
        Inl x \<Rightarrow> Inl x
      | Inr v \<Rightarrow> collect fs w (res(f_id f \<mapsto> v)))"

text \<open>A click on each button of the modal; without a handler a click does nothing.\<close>

definition modalConfirm_onclick :: "env \<Rightarrow> page \<Rightarrow> page" where
  "modalConfirm_onclick e w =
     (case modal_onclick w of
        None \<Rightarrow> w
      | Some (specs, k) \<Rightarrow>
          (case collect specs w Map.empty of
             Inl x \<Rightarrow> w\<lparr>uncaught := uncaught w @ [x]\<rparr>
           | Inr res \<Rightarrow> close e k (Some res) w))"

definition modalCancel_onclick :: "env \<Rightarrow> page \<Rightarrow> page" where
  "modalCancel_onclick e w =
     (case modal_onclick w of
        None \<Rightarrow> w
      | Some (specs, k) \<Rightarrow> close e k None w)"

text \<open>
  The user types a value into the input with the given id; the browser sanitises it as it
  does a value the script assigns.
\<close>

definition type_into :: "jsstring \<times> jsstring \<Rightarrow> page \<Rightarrow> page" where
  "type_into iv w =
     w\<lparr>modalInputs :=
         map (\<lambda>i. if inp_id i = fst iv then i\<lparr>inp_value := sanitize (inp_type i) (snd iv)\<rparr>
                  else i) (modalInputs w)\<rparr>"

section \<open>Clear and init (lines 161 to 182)\<close>

definition copyCode :: "page \<Rightarrow> page" where
  "copyCode w = w\<lparr>selectionStart := 0, selectionEnd := length (editor_value w)\<rparr>"

text \<open>\<open>clearAll\<close>, with the user's answer to \<open>confirm\<close>.\<close>

definition clearAll :: "env \<Rightarrow> bool \<Rightarrow> page \<Rightarrow> (exn \<times> page) + page" where
  "clearAll e confirmed w =
     (if confirmed
      then saveToLocal e (updateGutter ((set_editor_value [] w)\<lparr>visual_innerHTML := []\<rparr>))
      else Inr w)"

definition default_document :: jsstring where
  "default_document =
     ascii ''# '' @ [0x5E2, 0x5D5, 0x5E8, 0x5DA, 0x20, 0x5D4, 0x5D9, 0x5D1, 0x5E8, 0x5D9, 0x5D3, 0x5D9]
     @ [nl, nl] @ [0x5D4, 0x5EA, 0x5D7, 0x5DC, 0x20, 0x5DC, 0x5DB, 0x5EA, 0x5D5, 0x5D1]
     @ ascii ''...''"

text \<open>
  \<open>window.onload\<close>, lines 178 to 180 (line 181 changes the theme icon only).
  \<open>localStorage.getItem\<close> gives \<open>null\<close> for a key that is not stored.
\<close>

definition window_onload :: "page \<Rightarrow> page" where
  "window_onload w =
     (let saved = localStorage w md_content
      in syncCodeToVisual (set_editor_value (string_or saved default_document) w))"

section \<open>The command surface\<close>

text \<open>What the user answers to a prompt: cancel, or the values typed before confirming.\<close>

datatype answer = Cancel | Confirm "(jsstring \<times> jsstring) list"

definition respond :: "env \<Rightarrow> answer \<Rightarrow> page \<Rightarrow> page" where
  "respond e a w =
     (case a of
        Cancel \<Rightarrow> modalCancel_onclick e w
      | Confirm typed \<Rightarrow> modalConfirm_onclick e (fold type_into typed w))"

text \<open>
  The commands of the toolbar, each with what the user answers to it. Export, download and the
  two toggles write nothing of the page modelled here. An exception that leaves a command is
  reported by the browser as one that leaves a timer's callback is.
\<close>

datatype command =
    ExecCmd jsstring "jsstring option"
  | InsertCode
  | InsertImage answer
  | InsertMarkdownTable answer
  | ExportToDocx
  | DownloadFile
  | CopyCode
  | ClearAll bool
  | ToggleTheme
  | ToggleDir

definition run_command :: "env \<Rightarrow> command \<Rightarrow> page \<Rightarrow> page" where
  "run_command e c w =
     (case c of
        ExecCmd command val \<Rightarrow> execCmd e command val w
      | InsertCode \<Rightarrow> insertCode e w
      | InsertImage a \<Rightarrow> respond e a (insertImage w)
      | InsertMarkdownTable a \<Rightarrow> respond e a (insertMarkdownTable w)
      | ExportToDocx \<Rightarrow> w
      | DownloadFile \<Rightarrow> w
      | CopyCode \<Rightarrow> copyCode w
      | ClearAll confirmed \<Rightarrow>
          (case clearAll e confirmed w of
             Inl (x, w') \<Rightarrow> w'\<lparr>uncaught := uncaught w' @ [x]\<rparr>
           | Inr w' \<Rightarrow> w')
      | ToggleTheme \<Rightarrow> w
      | ToggleDir \<Rightarrow> w)"

section \<open>Invariant of the timers\<close>

text \<open>
  What holds of the timer table in every page the script can reach: handles are not reused,
  every timer is the one its wrapper's \<open>timeout\<close> names, and no timer is due later than
  50 ms from now (each was started with that delay).
\<close>

definition timers_ok :: "page \<Rightarrow> bool" where
  "timers_ok w \<longleftrightarrow>
     distinct (map fst (timers w))
     \<and> list_all (\<lambda>t. fst t < next_timer w
                     \<and> get_timeout (snd (snd t)) w = Some (fst t)
                     \<and> fst (snd t) \<le> clock w + 50) (timers w)"

text \<open>The newest timer is the one of wrapper \<open>d\<close>, started now, and \<open>d\<close> has no other.\<close>

definition armed :: "debounced \<Rightarrow> page \<Rightarrow> bool" where
  "armed d w \<longleftrightarrow>
     timers w \<noteq> [] \<and> snd (last (timers w)) = (clock w + 50, d)
     \<and> d \<notin> set (map (\<lambda>t. snd (snd t)) (butlast (timers w)))"

text \<open>The part of the page the timers and the two wrappers live in.\<close>

definition sched :: "page \<Rightarrow> timer list \<times> nat \<times> nat option \<times> nat option \<times> nat" where
  "sched w = (timers w, next_timer w, timeout_c2v w, timeout_v2c w, clock w)"

text \<open>
  The part of the page that holds the document: both views with the selection and the
  gutter, and the storage.
\<close>

definition doc ::
  "page \<Rightarrow> jsstring \<times> nat \<times> nat \<times> jsstring \<times> jsstring \<times> (jsstring \<rightharpoonup> jsstring)" where
  "doc w = (editor_value w, selectionStart w, selectionEnd w, visual_innerHTML w,
            gutter_innerHTML w, localStorage w)"

text \<open>No timer of the other wrapper is pending.\<close>

definition only :: "debounced \<Rightarrow> page \<Rightarrow> bool" where
  "only d w = list_all (\<lambda>t. snd (snd t) = d) (timers w)"

section \<open>What the claims speak of\<close>

text \<open>
  A table block as claim C7 describes it: between two newlines, a header row of two cells,
  a separator row of two cells and two data rows.
\<close>

definition table_3_by_2 :: jsstring where
  "table_3_by_2 =
     [nl] @ table_row [header_word @ ascii '' 1'', header_word @ ascii '' 2'']
     @ table_row [ascii ''---'', ascii ''---'']
     @ table_row [data_word, data_word]
     @ table_row [data_word, data_word]
     @ [nl]"

text \<open>
  The prompt of the table command confirmed with 3 rows and 2 columns: with the default
  values untouched, or with both typed.
\<close>

definition confirm_3_by_2 :: "answer set" where
  "confirm_3_by_2 = {Confirm [], Confirm [(ascii ''rows'', ascii ''3''), (ascii ''cols'', ascii ''2'')]}"

text \<open>
  The page once that prompt has been confirmed and closed, before the insertion.
\<close>

definition table_prompt_closed :: "page \<Rightarrow> page" where
  "table_prompt_closed w =
     w\<lparr>modalTitle_textContent :=
         [0x5D9, 0x5E6, 0x5D9, 0x5E8, 0x5EA, 0x20, 0x5D8, 0x5D1, 0x5DC, 0x5D4],
       modalInputs :=
         [\<lparr>lbl_textContent = [0x5E9, 0x5D5, 0x5E8, 0x5D5, 0x5EA], inp_type = ascii ''number'',
           inp_id = ascii ''rows'', inp_value = ascii ''3''\<rparr>,
          \<lparr>lbl_textContent = [0x5E2, 0x5DE, 0x5D5, 0x5D3, 0x5D5, 0x5EA], inp_type = ascii ''number'',
           inp_id = ascii ''cols'', inp_value = ascii ''2''\<rparr>],
       customModal_display := ascii ''none'', modal_onclick := None\<rparr>"

section \<open>Example environments and pages\<close>

text \<open>
  An example environment for the instances below: a renderer that wraps the text in a
  paragraph, a serializer that prefixes a marker, a document command that appends an element,
  a quota of 5 * 1024 * 1024 code units. In the second one both converters throw.
\<close>

definition example_env :: env where
  "example_env =
     \<lparr>marked_parse = (\<lambda>m. Inr (ascii ''<p>'' @ m @ ascii ''</p>'')),
      turndown = (\<lambda>t. Inr (ascii ''md:'' @ t)),
      execCommand_rich = (\<lambda>c v t. t @ ascii ''<b></b>''),
      insertText_supported = True,
      storage_quota = 5242880\<rparr>"

definition failing_env :: env where
  "failing_env =
     \<lparr>marked_parse = (\<lambda>m. Inl (Thrown (ascii ''render''))),
      turndown = (\<lambda>t. Inl (Thrown (ascii ''serialize''))),
      execCommand_rich = (\<lambda>c v t. t),
      insertText_supported = False,
      storage_quota = 5242880\<rparr>"

text \<open>
  A page with empty views, nothing stored and no timer; the same with a document in both
  views.
\<close>

definition blank_page :: page where
  "blank_page =
     \<lparr>editor_value = [], selectionStart = 0, selectionEnd = 0, visual_innerHTML = [],
      gutter_innerHTML = [], localStorage = Map.empty, modalTitle_textContent = [],
      modalInputs = [], customModal_display = ascii ''none'', modal_onclick = None,
      timers = [], next_timer = 1, timeout_c2v = None, timeout_v2c = None, clock = 0,
      uncaught = []\<rparr>"

definition example_doc :: page where
  "example_doc = blank_page\<lparr>editor_value := ascii ''x'', visual_innerHTML := ascii ''<p>x</p>''\<rparr>"

text \<open>
  A markup text and a content of the rich view that the quota of the example environment
  does not hold: with the 10 code units of the key, one code unit too many.
\<close>

definition long_markup :: jsstring where
  "long_markup = replicate 5242871 0x61"

definition long_content :: jsstring where
  "long_content = replicate 5242868 0x61"

text \<open>A page 50 ms after an edit of the markup view, its timer due.\<close>

definition pending_page :: page where
  "pending_page =
     blank_page\<lparr>editor_value := ascii ''a'', timers := [(1, 50, CodeToVisual)], next_timer := 2,
       timeout_c2v := Some 1, clock := 50\<rparr>"

text \<open>Two more edits of the markup view, 10 ms and 49 ms after the edit before.\<close>

definition example_burst :: "(nat \<times> input) list" where
  "example_burst = [(10, EditorInput (ascii ''ab'') 2), (49, EditorInput (ascii ''abc'') 3)]"

section \<open>Facts about the sync functions and the event loop\<close>

lemma timers_run_task [simp]: "timers (run_task e d w) = timers w"
  by (cases d)
     (auto simp: run_task_def func_def syncCodeToVisual_func_def syncVisualToCode_func_def
        saveToLocal_def updateGutter_def set_editor_value_def split: sum.splits if_splits)

lemma find_Some_holds: "find P xs = Some t \<Longrightarrow> P t"
  by (induction xs) (auto split: if_splits)

lemma length_split_from: "length (split_from c piece xs) = Suc (count_list xs c)"
  by (induction xs arbitrary: piece) simp_all

lemma gutter_of_lines:
  "gutter_of v = join (ascii ''<br>'') (map Number_toString [1..<count_list v nl + 2])"
proof -
  have "map (\<lambda>i. Number_toString (i + 1)) [0..<n] = map Number_toString [1..<Suc n]" for n
    by (simp add: map_Suc_upt [symmetric] del: upt_Suc)
  then show ?thesis
    by (simp add: gutter_of_def split_def length_split_from del: upt_Suc)
qed

lemma c2v_outcome:
  "marked_parse e (editor_value w) = Inr t \<Longrightarrow>
     syncCodeToVisual_func e w =
       (if length md_content + length (editor_value w) \<le> storage_quota e
        then Inr (w\<lparr>visual_innerHTML := t, gutter_innerHTML := gutter_of (editor_value w),
                  localStorage := (localStorage w)(md_content \<mapsto> editor_value w)\<rparr>)
        else Inl (QuotaExceededError,
                  w\<lparr>visual_innerHTML := t, gutter_innerHTML := gutter_of (editor_value w)\<rparr>))"
  by (simp add: syncCodeToVisual_func_def saveToLocal_def updateGutter_def)

lemma v2c_outcome:
  "turndown e (visual_innerHTML w) = Inr m \<Longrightarrow>
     \<exists>w1. editor_value w1 = m \<and> visual_innerHTML w1 = visual_innerHTML w
          \<and> gutter_innerHTML w1 = gutter_of m \<and> localStorage w1 = localStorage w
          \<and> uncaught w1 = uncaught w
          \<and> syncVisualToCode_func e w =
              (if length md_content + length m \<le> storage_quota e
               then Inr (w1\<lparr>localStorage := (localStorage w)(md_content \<mapsto> m)\<rparr>)
               else Inl (QuotaExceededError, w1))"
  by (rule exI [of _ "updateGutter (set_editor_value m w)"])
     (simp add: syncVisualToCode_func_def saveToLocal_def updateGutter_def set_editor_value_def)

lemma func_persists_markup:
  "func e d w = Inr w' \<Longrightarrow> localStorage w' md_content = Some (editor_value w')"
  by (cases d)
     (auto simp: func_def syncCodeToVisual_func_def syncVisualToCode_func_def saveToLocal_def
        updateGutter_def set_editor_value_def split: sum.splits if_splits)

lemma run_task_c2v_views:
  "editor_value (run_task e CodeToVisual w) = editor_value w"
  "marked_parse e (editor_value w) = Inr t \<Longrightarrow> visual_innerHTML (run_task e CodeToVisual w) = t"
  by (auto simp: run_task_def func_def syncCodeToVisual_func_def saveToLocal_def updateGutter_def
        split: sum.splits if_splits)

lemma run_task_v2c_views:
  "visual_innerHTML (run_task e VisualToCode w) = visual_innerHTML w"
  "turndown e (visual_innerHTML w) = Inr m \<Longrightarrow> editor_value (run_task e VisualToCode w) = m"
  by (auto simp: run_task_def func_def syncVisualToCode_func_def saveToLocal_def updateGutter_def
        set_editor_value_def split: sum.splits if_splits)

lemma run_task_timers_update:
  "run_task e d (w\<lparr>timers := x\<rparr>) = (run_task e d w)\<lparr>timers := x\<rparr>"
  by (cases d)
     (auto simp: run_task_def func_def syncCodeToVisual_func_def syncVisualToCode_func_def
        saveToLocal_def updateGutter_def set_editor_value_def split: sum.splits if_splits)

lemma run_task_scheduler [simp]:
  "clock (run_task e d w) = clock w"
  "next_timer (run_task e d w) = next_timer w"
  "timeout_c2v (run_task e d w) = timeout_c2v w"
  "timeout_v2c (run_task e d w) = timeout_v2c w"
  by (cases d;
      auto simp: run_task_def func_def syncCodeToVisual_func_def syncVisualToCode_func_def
        saveToLocal_def updateGutter_def set_editor_value_def split: sum.splits if_splits)+

lemma find_Some_filter:
  "find P xs = Some t \<Longrightarrow> filter P xs = t # filter P (remove1 t xs)"
  by (induction xs) (auto split: if_splits dest: find_Some_holds)

lemma find_Some_filter_not:
  "find P xs = Some t \<Longrightarrow> filter (\<lambda>x. \<not> P x) (remove1 t xs) = filter (\<lambda>x. \<not> P x) xs"
  by (induction xs) (auto split: if_splits dest: find_Some_holds)

lemma find_None_filter:
  "find P xs = None \<Longrightarrow> filter P xs = [] \<and> filter (\<lambda>x. \<not> P x) xs = xs"
  by (induction xs) (auto split: if_splits)

lemma due_run_task [simp]: "due (run_task e d w) = due w"
  by (simp add: due_def fun_eq_iff)

lemma due_timers_update [simp]: "due (w\<lparr>timers := x\<rparr>) = due w"
  by (simp add: due_def fun_eq_iff)

text \<open>
  The event loop runs each due timer once, oldest first, and leaves the others in the table:
  no callback starts a timer.
\<close>

lemma drain_eq:
  "drain e w =
     (map (\<lambda>t. snd (snd t)) (filter (due w) (timers w)),
      foldl (\<lambda>w d. run_task e d w) (w\<lparr>timers := filter (\<lambda>t. \<not> due w t) (timers w)\<rparr>)
        (map (\<lambda>t. snd (snd t)) (filter (due w) (timers w))))"
proof (induction e w rule: drain.induct)
  case (1 e w)
  show ?case
  proof (cases "find (due w) (timers w)")
    case None
    then show ?thesis
      by (subst drain.simps) (simp add: find_None_filter)
  next
    case (Some t)
    define w1 where "w1 = run_task e (snd (snd t)) (w\<lparr>timers := remove1 t (timers w)\<rparr>)"
    have ih: "drain e w1 =
       (map (\<lambda>t. snd (snd t)) (filter (due w1) (timers w1)),
        foldl (\<lambda>w d. run_task e d w) (w1\<lparr>timers := filter (\<lambda>t. \<not> due w1 t) (timers w1)\<rparr>)
          (map (\<lambda>t. snd (snd t)) (filter (due w1) (timers w1))))"
      using "1.IH" [OF Some w1_def] .
    have d1: "due w1 = due w" by (simp add: w1_def)
    have t1: "timers w1 = remove1 t (timers w)" by (simp add: w1_def)
    have start: "w1\<lparr>timers := filter (\<lambda>t. \<not> due w t) (timers w)\<rparr> =
        run_task e (snd (snd t)) (w\<lparr>timers := filter (\<lambda>t. \<not> due w t) (timers w)\<rparr>)"
      by (simp add: w1_def run_task_timers_update)
    have "drain e w = (snd (snd t) # fst (drain e w1), snd (drain e w1))"
      by (subst drain.simps) (simp add: Some w1_def Let_def)
    then show ?thesis
      by (simp add: ih d1 t1 find_Some_filter [OF Some] find_Some_filter_not [OF Some] start)
  qed
qed

lemma timers_foldl_run_task [simp]:
  "timers (foldl (\<lambda>w d. run_task e d w) w ds) = timers w"
  by (induction ds arbitrary: w) simp_all

section \<open>Facts about the timers\<close>

lemma sched_timers_ok: "sched w' = sched w \<Longrightarrow> timers_ok w' = timers_ok w"
  by (simp add: sched_def timers_ok_def get_timeout_def cong: debounced.case_cong)

lemma sched_armed: "sched w' = sched w \<Longrightarrow> armed d w' = armed d w"
  by (simp add: sched_def armed_def)

lemma sched_debounce: "sched w' = sched w \<Longrightarrow> sched (debounce d n w') = sched (debounce d n w)"
  by (cases d) (simp_all add: sched_def debounce_def clearTimeout_def setTimeout_def
      get_timeout_def set_timeout_def)

lemma sched_run_task [simp]: "sched (run_task e d w) = sched w"
  by (simp add: sched_def)

lemma sched_foldl_run_task [simp]: "sched (foldl (\<lambda>w d. run_task e d w) w ds) = sched w"
  by (induction ds arbitrary: w) simp_all

lemma doc_fields:
  "doc r = doc w \<Longrightarrow>
     editor_value r = editor_value w \<and> selectionStart r = selectionStart w
     \<and> selectionEnd r = selectionEnd w \<and> visual_innerHTML r = visual_innerHTML w
     \<and> gutter_innerHTML r = gutter_innerHTML w \<and> localStorage r = localStorage w"
  by (simp add: doc_def)

lemma sched_fields:
  "sched r = sched w \<Longrightarrow>
     timers r = timers w \<and> next_timer r = next_timer w \<and> timeout_c2v r = timeout_c2v w
     \<and> timeout_v2c r = timeout_v2c w \<and> clock r = clock w"
  by (simp add: sched_def)

lemma timers_debounce:
  "timers (debounce d n w) =
     filter (\<lambda>t. Some (fst t) \<noteq> get_timeout d w) (timers w) @ [(next_timer w, clock w + n, d)]"
  by (cases d) (simp_all add: debounce_def clearTimeout_def setTimeout_def set_timeout_def)

lemma debounce_scheduler [simp]:
  "next_timer (debounce d n w) = next_timer w + 1"
  "clock (debounce d n w) = clock w"
  "get_timeout d' (debounce d n w) = (if d' = d then Some (next_timer w) else get_timeout d' w)"
  by (cases d; cases d';
      simp add: debounce_def clearTimeout_def setTimeout_def set_timeout_def get_timeout_def)+

lemma debounce_content [simp]:
  "editor_value (debounce d n w) = editor_value w"
  "visual_innerHTML (debounce d n w) = visual_innerHTML w"
  "localStorage (debounce d n w) = localStorage w"
  "selectionStart (debounce d n w) = selectionStart w"
  "selectionEnd (debounce d n w) = selectionEnd w"
  by (cases d; simp add: debounce_def clearTimeout_def setTimeout_def set_timeout_def)+

lemma debounce_ok:
  assumes "timers_ok w"
  shows "timers_ok (debounce d 50 w) \<and> armed d (debounce d 50 w)"
proof -
  let ?old = "filter (\<lambda>t. Some (fst t) \<noteq> get_timeout d w) (timers w)"
  from assms have dist: "distinct (map fst (timers w))"
    and each: "\<And>t. t \<in> set (timers w) \<Longrightarrow>
        fst t < next_timer w \<and> get_timeout (snd (snd t)) w = Some (fst t)
        \<and> fst (snd t) \<le> clock w + 50"
    by (auto simp: timers_ok_def list_all_iff)
  have other: "snd (snd t) \<noteq> d" if "t \<in> set ?old" for t
    using that each [of t] by auto
  have fresh: "next_timer w \<notin> fst ` set ?old"
    using each by fastforce
  have "distinct (map fst ?old)"
    using dist by (simp add: distinct_map_filter)
  moreover have "fst t < next_timer w + 1 \<and> fst (snd t) \<le> clock w + 50
      \<and> (if snd (snd t) = d then Some (next_timer w) else get_timeout (snd (snd t)) w) = Some (fst t)"
    if "t \<in> set ?old" for t
    using that each [of t] other [of t] by auto
  ultimately have "timers_ok (debounce d 50 w)"
    using fresh by (simp add: timers_ok_def timers_debounce list_all_iff)
  moreover from other have "armed d (debounce d 50 w)"
    by (auto simp: armed_def timers_debounce)
  ultimately show ?thesis ..
qed

lemma drain_ok:
  assumes "timers_ok w"
  shows "timers_ok (snd (drain e (w\<lparr>clock := clock w + dt\<rparr>)))"
proof -
  let ?w = "w\<lparr>clock := clock w + dt\<rparr>"
  have "timers_ok (?w\<lparr>timers := filter (\<lambda>t. \<not> due ?w t) (timers ?w)\<rparr>)"
    using assms
    by (auto simp: timers_ok_def list_all_iff distinct_map_filter get_timeout_def
          split: debounced.splits)
  then show ?thesis
    by (simp add: drain_eq sched_timers_ok [of "foldl _ _ _"])
qed

lemma elapse_short:
  assumes "timers_ok w" and "armed d w" and "g < 50"
  shows "d \<notin> set (fst (elapse e g w))"
proof -
  from assms(2) have ne: "timers w \<noteq> []" and l: "snd (last (timers w)) = (clock w + 50, d)"
    and bl: "d \<notin> set (map (\<lambda>t. snd (snd t)) (butlast (timers w)))"
    by (auto simp: armed_def)
  from ne have split: "timers w = butlast (timers w) @ [last (timers w)]" by simp
  have "\<not> due (w\<lparr>clock := clock w + g\<rparr>) (last (timers w))"
    using l assms(3) by (simp add: due_def)
  then have "filter (due (w\<lparr>clock := clock w + g\<rparr>)) (timers w)
      = filter (due (w\<lparr>clock := clock w + g\<rparr>)) (butlast (timers w))"
    by (subst split) simp
  with bl show ?thesis
    by (auto simp: elapse_def drain_eq)
qed

lemma elapse_long:
  assumes "timers_ok w" and "armed d w" and "50 \<le> dt"
  shows "elapse e dt w =
     (map (\<lambda>t. snd (snd t)) (butlast (timers w)) @ [d],
      run_task e d
        (foldl (\<lambda>w c. run_task e c w) (w\<lparr>clock := clock w + dt, timers := []\<rparr>)
           (map (\<lambda>t. snd (snd t)) (butlast (timers w)))))"
proof -
  let ?w = "w\<lparr>clock := clock w + dt\<rparr>"
  from assms(2) have ne: "timers w \<noteq> []" and l: "snd (snd (last (timers w))) = d"
    by (auto simp: armed_def)
  from assms(1,3) have all: "\<And>t. t \<in> set (timers w) \<Longrightarrow> due ?w t"
    by (auto simp: timers_ok_def list_all_iff due_def)
  then have f1: "filter (due ?w) (timers w) = timers w"
    and f2: "filter (\<lambda>t. \<not> due ?w t) (timers w) = []"
    by (auto simp: filter_empty_conv)
  have "map (\<lambda>t. snd (snd t)) (timers w)
      = map (\<lambda>t. snd (snd t)) (butlast (timers w)) @ [d]"
    using ne l by (subst append_butlast_last_id [symmetric, OF ne]) (simp del: append_butlast_last_id)
  then show ?thesis
    by (simp add: elapse_def drain_eq f1 f2)
qed

lemma elapse_ok: "timers_ok w \<Longrightarrow> timers_ok (snd (elapse e dt w))"
  by (simp add: elapse_def drain_ok)

lemma fired_once:
  assumes "timers_ok w" and "armed d w" and "50 \<le> dt"
  shows "length (filter (\<lambda>c. c = d) (fst (elapse e dt w))) = 1"
proof -
  from assms(2) have "filter (\<lambda>c. c = d) (map (\<lambda>t. snd (snd t)) (butlast (timers w))) = []"
    by (auto simp: armed_def filter_empty_conv)
  then show ?thesis
    by (simp add: elapse_long [OF assms])
qed

lemma sched_only: "sched w' = sched w \<Longrightarrow> only d w' = only d w"
  by (simp add: sched_def only_def)

lemma only_debounce: "only d w \<Longrightarrow> only d (debounce d n w)"
  by (simp add: only_def timers_debounce list_all_iff)

lemma only_dispatch_input: "only (wrapper_of i) w \<Longrightarrow> only (wrapper_of i) (dispatch_input i w)"
proof (cases i)
  case (EditorInput v pos)
  assume "only (wrapper_of i) w"
  then have "only CodeToVisual (w\<lparr>editor_value := v, selectionStart := min pos (length v),
               selectionEnd := min pos (length v)\<rparr>)"
    by (simp add: EditorInput wrapper_of_def only_def)
  then show ?thesis
    by (simp add: EditorInput dispatch_input_def wrapper_of_def syncCodeToVisual_def only_debounce)
next
  case (VisualInput t)
  assume "only (wrapper_of i) w"
  then have "only VisualToCode (w\<lparr>visual_innerHTML := t\<rparr>)"
    by (simp add: VisualInput wrapper_of_def only_def)
  then show ?thesis
    by (simp add: VisualInput dispatch_input_def wrapper_of_def syncVisualToCode_def only_debounce)
qed

lemma dispatch_input_ok:
  assumes "timers_ok w"
  shows "timers_ok (dispatch_input i w) \<and> armed (wrapper_of i) (dispatch_input i w)"
proof (cases i)
  case (EditorInput v pos)
  let ?w = "w\<lparr>editor_value := v, selectionStart := min pos (length v),
               selectionEnd := min pos (length v)\<rparr>"
  have "timers_ok ?w" using assms by (simp add: sched_timers_ok [of ?w w] sched_def)
  from debounce_ok [OF this, of CodeToVisual] show ?thesis
    by (simp add: EditorInput dispatch_input_def wrapper_of_def syncCodeToVisual_def)
next
  case (VisualInput t)
  let ?w = "w\<lparr>visual_innerHTML := t\<rparr>"
  have "timers_ok ?w" using assms by (simp add: sched_timers_ok [of ?w w] sched_def)
  from debounce_ok [OF this, of VisualToCode] show ?thesis
    by (simp add: VisualInput dispatch_input_def wrapper_of_def syncVisualToCode_def)
qed

lemma burst_quiet:
  assumes "list_all (\<lambda>gi. fst gi < 50 \<and> wrapper_of (snd gi) = d) rest"
    and "timers_ok w" and "armed d w"
  shows "d \<notin> set (fst (burst e rest w)) \<and> timers_ok (snd (burst e rest w))
         \<and> armed d (snd (burst e rest w))"
  using assms
proof (induction rest arbitrary: w)
  case Nil
  then show ?case by simp
next
  case (Cons gi rest)
  obtain g i where gi: "gi = (g, i)" by (cases gi)
  from Cons.prems(1) gi have g: "g < 50" and i: "wrapper_of i = d"
    and rest: "list_all (\<lambda>gi. fst gi < 50 \<and> wrapper_of (snd gi) = d) rest"
    by auto
  let ?w1 = "snd (elapse e g w)"
  have q: "d \<notin> set (fst (elapse e g w))"
    using elapse_short [OF Cons.prems(2,3) g] .
  have ok1: "timers_ok ?w1" using Cons.prems(2) by (rule elapse_ok)
  from dispatch_input_ok [OF ok1, of i] i
  have ok2: "timers_ok (dispatch_input i ?w1)" and a2: "armed d (dispatch_input i ?w1)"
    by auto
  from Cons.IH [OF rest ok2 a2] q show ?case
    by (simp add: gi Let_def)
qed

lemma blank_page_ok: "timers_ok blank_page"
  by (simp add: timers_ok_def blank_page_def)

lemma distinct_all_same: "distinct ys \<Longrightarrow> \<forall>y\<in>set ys. y = h \<Longrightarrow> length ys \<le> Suc 0"
  by (cases ys; cases "tl ys") auto

lemma timers_ok_at_most_one:
  assumes "timers_ok w"
  shows "length (filter (\<lambda>t. snd (snd t) = d) (timers w)) \<le> 1"
proof -
  let ?ys = "map fst (filter (\<lambda>t. snd (snd t) = d) (timers w))"
  from assms have "distinct ?ys"
    by (simp add: timers_ok_def distinct_map_filter)
  moreover from assms have "\<forall>y\<in>set ?ys. Some y = get_timeout d w"
    by (auto simp: timers_ok_def list_all_iff)
  then have "\<forall>y\<in>set ?ys. y = the (get_timeout d w)"
    by (metis option.sel)
  ultimately have "length ?ys \<le> Suc 0" by (rule distinct_all_same)
  then show ?thesis by simp
qed

lemma armed_one_timer:
  assumes "armed d w"
  shows "length (filter (\<lambda>t. snd (snd t) = d) (timers w)) = 1"
proof -
  from assms have ne: "timers w \<noteq> []" and l: "snd (snd (last (timers w))) = d"
    and bl: "d \<notin> set (map (\<lambda>t. snd (snd t)) (butlast (timers w)))"
    by (auto simp: armed_def)
  from bl have "filter (\<lambda>t. snd (snd t) = d) (butlast (timers w)) = []"
    by (auto simp: filter_empty_conv)
  with l have "filter (\<lambda>t. snd (snd t) = d) (butlast (timers w) @ [last (timers w)])
      = [last (timers w)]"
    by simp
  with ne show ?thesis by simp
qed

lemma armed_only:
  assumes "timers_ok w" and "armed d w" and "only d w"
  shows "butlast (timers w) = []"
proof -
  from assms(3) have "filter (\<lambda>t. snd (snd t) = d) (timers w) = timers w"
    by (simp add: only_def list_all_iff)
  with timers_ok_at_most_one [OF assms(1), of d] have "length (timers w) \<le> 1" by simp
  then show ?thesis by (cases "timers w") simp_all
qed

lemma elapse_alone:
  assumes "timers_ok w" and "armed d w" and "only d w" and "50 \<le> dt"
  shows "elapse e dt w = ([d], run_task e d (w\<lparr>clock := clock w + dt, timers := []\<rparr>))"
  using elapse_long [OF assms(1,2,4), of e] armed_only [OF assms(1,2,3)] by simp

lemma onload_timers:
  "timers w = [] \<Longrightarrow>
     timers (window_onload w) = [(next_timer w, clock w + 50, CodeToVisual)]
     \<and> clock (window_onload w) = clock w"
  by (simp add: window_onload_def syncCodeToVisual_def debounce_def clearTimeout_def
        setTimeout_def set_timeout_def get_timeout_def set_editor_value_def Let_def)

lemma onload_value:
  "editor_value (window_onload w) = string_or (localStorage w md_content) default_document"
  by (simp add: window_onload_def syncCodeToVisual_def debounce_def clearTimeout_def
        setTimeout_def set_timeout_def get_timeout_def set_editor_value_def Let_def)

section \<open>Facts about the commands\<close>

lemma table_text_3_2: "table_text (Some (ascii ''3'')) (Some (ascii ''2'')) = Inr table_3_by_2"
  by code_simp

lemma ascii_ids [simp]:
  "ascii ''rows'' \<noteq> ascii ''cols''" "ascii ''cols'' \<noteq> ascii ''rows''"
  "ascii ''url'' \<noteq> ascii ''alt''" "ascii ''alt'' \<noteq> ascii ''url''"
  "ascii ''number'' \<noteq> []"
  by (simp_all add: ascii_def)

lemma sched_set_cursor [simp]: "sched (set_cursor p w) = sched w"
  by (simp add: sched_def set_cursor_def Let_def)

lemma sched_set_editor_value [simp]: "sched (set_editor_value v w) = sched w"
  by (simp add: sched_def set_editor_value_def)

lemma armed_set_cursor [simp]: "armed d (set_cursor p w) = armed d w"
  by (rule sched_armed) simp

lemma timers_ok_set_cursor [simp]: "timers_ok (set_cursor p w) = timers_ok w"
  by (rule sched_timers_ok) simp

lemma only_set_cursor [simp]: "only d (set_cursor p w) = only d w"
  by (rule sched_only) simp

lemma insertText_scheduled:
  assumes "timers_ok w"
  shows "timers_ok (insertTextAtCursor e text off w)
       \<and> armed CodeToVisual (insertTextAtCursor e text off w)
       \<and> (only CodeToVisual w \<longrightarrow> only CodeToVisual (insertTextAtCursor e text off w))"
proof (cases "insertText_supported e")
  case True
  let ?i = "EditorInput (replace_selection text w) (selectionStart w + length text)"
  from dispatch_input_ok [OF assms, of ?i] only_dispatch_input [of ?i w]
  show ?thesis
    by (simp add: insertTextAtCursor_def True Let_def wrapper_of_def)
next
  case False
  let ?w = "set_cursor (int (selectionStart w) + int (length text))
              (set_editor_value (replace_selection text w) w)"
  have s: "sched ?w = sched w" by simp
  have "timers_ok ?w" using assms sched_timers_ok [OF s] by simp
  from debounce_ok [OF this, of CodeToVisual] only_debounce [of CodeToVisual ?w 50]
    sched_only [OF s, of CodeToVisual]
  show ?thesis
    by (simp add: insertTextAtCursor_def False Let_def syncCodeToVisual_def)
qed

lemma set_cursor_content [simp]:
  "editor_value (set_cursor p w) = editor_value w"
  "visual_innerHTML (set_cursor p w) = visual_innerHTML w"
  "localStorage (set_cursor p w) = localStorage w"
  by (simp_all add: set_cursor_def Let_def)

lemma insertText_content:
  "editor_value (insertTextAtCursor e text off w) = replace_selection text w
   \<and> visual_innerHTML (insertTextAtCursor e text off w) = visual_innerHTML w
   \<and> localStorage (insertTextAtCursor e text off w) = localStorage w"
  by (simp add: insertTextAtCursor_def Let_def dispatch_input_def syncCodeToVisual_def
        set_editor_value_def)

lemma execCmd_scheduled:
  assumes "timers_ok w"
  shows "timers_ok (execCmd e c v w) \<and> armed VisualToCode (execCmd e c v w)
       \<and> editor_value (execCmd e c v w) = editor_value w
       \<and> (only VisualToCode w \<longrightarrow> only VisualToCode (execCmd e c v w))"
proof -
  let ?i = "VisualInput (execCommand_rich e c v (visual_innerHTML w))"
  let ?w1 = "if execCommand_rich e c v (visual_innerHTML w) = visual_innerHTML w then w
             else dispatch_input ?i w"
  have "timers_ok ?w1" using assms dispatch_input_ok [OF assms] by simp
  moreover have "only VisualToCode w \<longrightarrow> only VisualToCode ?w1"
    using only_dispatch_input [of ?i w] by (simp add: wrapper_of_def)
  ultimately show ?thesis
    using debounce_ok [of ?w1 VisualToCode] only_debounce [of VisualToCode ?w1 50]
    by (simp add: execCmd_def Let_def syncVisualToCode_def dispatch_input_def)
qed

lemma fold_type_into: "\<exists>ins. fold type_into typed w = w\<lparr>modalInputs := ins\<rparr>"
proof (induction typed arbitrary: w)
  case Nil
  have "w = w\<lparr>modalInputs := modalInputs w\<rparr>" by simp
  then show ?case by (metis fold_simps(1))
next
  case (Cons iv typed)
  from Cons [of "type_into iv w"] show ?case
    by (auto simp: type_into_def)
qed

lemma resume_cases:
  assumes "timers_ok w"
  shows "(\<exists>x. resume e k val w = Inl x)
       \<or> resume e k val w = Inr w
       \<or> (\<exists>text. resume e k val w = Inr (insertTextAtCursor e text 0 w))"
  by (cases k; cases val) (auto simp: resume_def split: sum.splits)

lemma resume_null: "resume e k None w = Inr w"
  by (cases k) (simp_all add: resume_def)

lemma respond_outcome:
  assumes "timers_ok w"
  shows "(doc (respond e a w) = doc w \<and> sched (respond e a w) = sched w)
       \<or> (timers_ok (respond e a w) \<and> armed CodeToVisual (respond e a w)
           \<and> visual_innerHTML (respond e a w) = visual_innerHTML w
           \<and> (only CodeToVisual w \<longrightarrow> only CodeToVisual (respond e a w)))"
proof (cases a)
  case Cancel
  then show ?thesis
    by (auto simp: respond_def modalCancel_onclick_def close_def resume_null doc_def sched_def
          split: option.splits)
next
  case (Confirm typed)
  obtain ins where f: "fold type_into typed w = w\<lparr>modalInputs := ins\<rparr>"
    using fold_type_into by blast
  let ?p = "w\<lparr>modalInputs := ins\<rparr>"
  show ?thesis
  proof (cases "modal_onclick w")
    case None
    then show ?thesis
      by (simp add: Confirm respond_def f modalConfirm_onclick_def doc_def sched_def)
  next
    case (Some fk)
    obtain fs k where fk: "fk = (fs, k)" by (cases fk)
    show ?thesis
    proof (cases "collect fs ?p Map.empty")
      case (Inl x)
      then show ?thesis
        by (simp add: Confirm respond_def f modalConfirm_onclick_def Some fk doc_def sched_def)
    next
      case (Inr res)
      let ?w1 = "?p\<lparr>customModal_display := ascii ''none'', modal_onclick := None\<rparr>"
      have ok1: "timers_ok ?w1"
        using assms by (simp add: sched_timers_ok [of ?w1 w] sched_def)
      have o1: "only CodeToVisual ?w1 = only CodeToVisual w"
        by (simp add: only_def)
      have r: "respond e a w =
          (case resume e k (Some res) ?w1 of
             Inl x \<Rightarrow> ?w1\<lparr>uncaught := uncaught ?w1 @ [x]\<rparr> | Inr w2 \<Rightarrow> w2)"
        by (simp add: Confirm respond_def f modalConfirm_onclick_def Some fk Inr close_def Let_def)
      from resume_cases [OF ok1, of e k "Some res"] show ?thesis
      proof (elim disjE exE)
        fix x assume "resume e k (Some res) ?w1 = Inl x"
        then show ?thesis by (simp add: r doc_def sched_def)
      next
        assume "resume e k (Some res) ?w1 = Inr ?w1"
        then show ?thesis by (simp add: r doc_def sched_def)
      next
        fix s assume "resume e k (Some res) ?w1 = Inr (insertTextAtCursor e s 0 ?w1)"
        then show ?thesis
          using insertText_scheduled [OF ok1, of e s 0] insertText_content [of e s 0 ?w1] o1
          by (simp add: r)
      qed
    qed
  qed
qed

lemma showCustomPrompt_same [simp]:
  "doc (showCustomPrompt title fs k w) = doc w"
  "sched (showCustomPrompt title fs k w) = sched w"
  by (simp_all add: showCustomPrompt_def doc_def sched_def)

lemma prompt_outcome:
  assumes "timers_ok w"
  shows "(doc (respond e a (showCustomPrompt title fs k w)) = doc w
          \<and> sched (respond e a (showCustomPrompt title fs k w)) = sched w)
       \<or> (timers_ok (respond e a (showCustomPrompt title fs k w))
           \<and> armed CodeToVisual (respond e a (showCustomPrompt title fs k w))
           \<and> visual_innerHTML (respond e a (showCustomPrompt title fs k w)) = visual_innerHTML w
           \<and> (only CodeToVisual w \<longrightarrow>
                only CodeToVisual (respond e a (showCustomPrompt title fs k w))))"
proof -
  let ?p = "showCustomPrompt title fs k w"
  have "timers_ok ?p" using assms by (simp add: sched_timers_ok [of ?p w])
  moreover have "only CodeToVisual ?p = only CodeToVisual w"
    by (rule sched_only) simp
  ultimately show ?thesis
    using respond_outcome [of ?p e a] doc_fields [of ?p w] by auto
qed

lemma clearAll_declined [simp]: "run_command e (ClearAll False) w = w"
  by (simp add: run_command_def clearAll_def)

lemma command_outcome:
  assumes "timers_ok w" and "c \<noteq> ClearAll True"
  shows "(editor_value (run_command e c w) = editor_value w
          \<and> visual_innerHTML (run_command e c w) = visual_innerHTML w)
       \<or> (timers_ok (run_command e c w) \<and> armed VisualToCode (run_command e c w)
           \<and> editor_value (run_command e c w) = editor_value w
           \<and> (only VisualToCode w \<longrightarrow> only VisualToCode (run_command e c w)))
       \<or> (timers_ok (run_command e c w) \<and> armed CodeToVisual (run_command e c w)
           \<and> visual_innerHTML (run_command e c w) = visual_innerHTML w
           \<and> (only CodeToVisual w \<longrightarrow> only CodeToVisual (run_command e c w)))"
proof (cases c)
  case (ExecCmd command val)
  then show ?thesis using execCmd_scheduled [OF assms(1), of e command val]
    by (simp add: run_command_def)
next
  case InsertCode
  then show ?thesis
    using insertText_scheduled [OF assms(1), of e code_block 4]
      insertText_content [of e code_block 4 w]
    by (simp add: run_command_def insertCode_def)
next
  case (InsertImage a)
  then show ?thesis
    using prompt_outcome [OF assms(1), of e a _ image_fields AwaitInsertImage]
    by (auto simp: run_command_def insertImage_def dest: doc_fields)
next
  case (InsertMarkdownTable a)
  then show ?thesis
    using prompt_outcome [OF assms(1), of e a _ table_fields AwaitInsertMarkdownTable]
    by (auto simp: run_command_def insertMarkdownTable_def dest: doc_fields)
next
  case (ClearAll b)
  with assms(2) show ?thesis by simp
qed (simp_all add: run_command_def copyCode_def)

text \<open>
  What a confirmed \<open>clearAll\<close> leaves: both views empty, a gutter of one line, the timers
  and the wrappers as they were, and the empty text stored when the quota holds the key.
\<close>

lemma clearAll_confirmed:
  "editor_value (run_command e (ClearAll True) w) = []
   \<and> visual_innerHTML (run_command e (ClearAll True) w) = []
   \<and> gutter_innerHTML (run_command e (ClearAll True) w) = ascii ''1''
   \<and> sched (run_command e (ClearAll True) w) = sched w
   \<and> (if length md_content \<le> storage_quota e
       then localStorage (run_command e (ClearAll True) w) md_content = Some []
            \<and> uncaught (run_command e (ClearAll True) w) = uncaught w
       else localStorage (run_command e (ClearAll True) w) = localStorage w
            \<and> uncaught (run_command e (ClearAll True) w) = uncaught w @ [QuotaExceededError])"
  by (simp add: run_command_def clearAll_def saveToLocal_def updateGutter_def
        set_editor_value_def sched_def gutter_of_def split_def Number_toString.simps ascii_def)

lemma sanitize_3_2 [simp]:
  "sanitize (ascii ''number'') (ascii ''3'') = ascii ''3''"
  "sanitize (ascii ''number'') (ascii ''2'') = ascii ''2''"
  by (simp_all add: sanitize_def valid_floating_point_number_def ASCII_digit_def ascii_def)

lemma table_confirmed_defaults:
  "run_command e (InsertMarkdownTable (Confirm [])) w
     = insertTextAtCursor e table_3_by_2 0 (table_prompt_closed w)"
  by (simp add: run_command_def respond_def insertMarkdownTable_def
        showCustomPrompt_def table_fields_def string_or_def
        modalConfirm_onclick_def getElementById_value_def close_def resume_def table_text_3_2
        table_prompt_closed_def)

lemma table_confirmed_typed:
  "run_command e
     (InsertMarkdownTable (Confirm [(ascii ''rows'', ascii ''3''), (ascii ''cols'', ascii ''2'')])) w
     = insertTextAtCursor e table_3_by_2 0 (table_prompt_closed w)"
  by (simp add: run_command_def respond_def insertMarkdownTable_def
        showCustomPrompt_def table_fields_def type_into_def string_or_def
        modalConfirm_onclick_def getElementById_value_def close_def resume_def table_text_3_2
        table_prompt_closed_def)

lemma table_confirmed:
  assumes "a \<in> confirm_3_by_2"
  shows "run_command e (InsertMarkdownTable a) w
           = insertTextAtCursor e table_3_by_2 0 (table_prompt_closed w)"
  using assms table_confirmed_defaults table_confirmed_typed
  by (auto simp: confirm_3_by_2_def)

lemma table_prompt_closed_same [simp]:
  "doc (table_prompt_closed w) = doc w" "sched (table_prompt_closed w) = sched w"
  by (simp_all add: table_prompt_closed_def doc_def sched_def)

text \<open>
  The invariant holds of the page without timers and is kept by every user edit, by the
  passing of time, by every command and by \<open>window.onload\<close>.
\<close>

lemma respond_ok:
  assumes "timers_ok w"
  shows "timers_ok (respond e a w)"
proof -
  from respond_outcome [OF assms, of e a]
  consider "sched (respond e a w) = sched w" | "timers_ok (respond e a w)" by blast
  then show ?thesis
  proof cases
    case 1
    from sched_timers_ok [OF this] assms show ?thesis by simp
  next
    case 2
    then show ?thesis .
  qed
qed

lemma run_command_ok:
  assumes "timers_ok w"
  shows "timers_ok (run_command e c w)"
proof (cases c)
  case (ExecCmd command val)
  then show ?thesis using execCmd_scheduled [OF assms, of e command val]
    by (simp add: run_command_def)
next
  case InsertCode
  then show ?thesis using insertText_scheduled [OF assms, of e code_block 4]
    by (simp add: run_command_def insertCode_def)
next
  case (InsertImage a)
  have "timers_ok (insertImage w)"
    using assms sched_timers_ok [of "insertImage w" w] by (simp add: insertImage_def)
  then show ?thesis by (simp add: InsertImage run_command_def respond_ok)
next
  case (InsertMarkdownTable a)
  have "timers_ok (insertMarkdownTable w)"
    using assms sched_timers_ok [of "insertMarkdownTable w" w] by (simp add: insertMarkdownTable_def)
  then show ?thesis by (simp add: InsertMarkdownTable run_command_def respond_ok)
next
  case CopyCode
  have "sched (copyCode w) = sched w" by (simp add: copyCode_def sched_def)
  from sched_timers_ok [OF this] assms show ?thesis by (simp add: CopyCode run_command_def)
next
  case (ClearAll b)
  have "sched (run_command e (ClearAll b) w) = sched w"
    using clearAll_confirmed [of e w] by (cases b) simp_all
  from sched_timers_ok [OF this] assms show ?thesis by (simp add: ClearAll)
qed (simp_all add: run_command_def assms)

lemma window_onload_ok:
  assumes "timers_ok w"
  shows "timers_ok (window_onload w)"
proof -
  let ?w = "set_editor_value (string_or (localStorage w md_content) default_document) w"
  have "timers_ok ?w" using assms sched_timers_ok [of ?w w] by simp
  from debounce_ok [OF this, of CodeToVisual] show ?thesis
    by (simp add: window_onload_def syncCodeToVisual_def)
qed

section \<open>The two sync directions\<close>

text \<open>
  Claim C1, as stated, fails for a markup text that the storage does not hold. With a quota
  of 5 * 1024 * 1024 code units and a markup text of 5242871 code units (one too many, with
  the key), the markup-direction sync writes the rich view, then \<open>setItem\<close> throws: the
  exception is reported as uncaught and nothing is stored.
\<close>

theorem sync_from_markup_over_quota:
  "marked_parse example_env long_markup = Inr (ascii ''<p>'' @ long_markup @ ascii ''</p>'')
   \<and> visual_innerHTML (run_task example_env CodeToVisual (blank_page\<lparr>editor_value := long_markup\<rparr>))
       = ascii ''<p>'' @ long_markup @ ascii ''</p>''
   \<and> localStorage (run_task example_env CodeToVisual (blank_page\<lparr>editor_value := long_markup\<rparr>))
         md_content \<noteq> Some long_markup
   \<and> localStorage (run_task example_env CodeToVisual (blank_page\<lparr>editor_value := long_markup\<rparr>))
         md_content = None
   \<and> uncaught (run_task example_env CodeToVisual (blank_page\<lparr>editor_value := long_markup\<rparr>))
       = [QuotaExceededError]"
proof -
  have l: "length long_markup = 5242871" by (simp add: long_markup_def)
  have k: "length md_content = 10" by (simp add: md_content_def ascii_def)
  have p: "marked_parse example_env long_markup = Inr (ascii ''<p>'' @ long_markup @ ascii ''</p>'')"
    by (simp add: example_env_def)
  have q: "storage_quota example_env = 5242880" by (simp add: example_env_def)
  have "syncCodeToVisual_func example_env (blank_page\<lparr>editor_value := long_markup\<rparr>)
      = Inl (QuotaExceededError,
             blank_page\<lparr>editor_value := long_markup,
               visual_innerHTML := ascii ''<p>'' @ long_markup @ ascii ''</p>'',
               gutter_innerHTML := gutter_of long_markup\<rparr>)"
    using c2v_outcome [of example_env "blank_page\<lparr>editor_value := long_markup\<rparr>", OF _]
    by (simp add: p l k q)
  then show ?thesis
    by (simp add: run_task_def func_def p) (simp add: blank_page_def)
qed

text \<open>
  Claim C1, amended. For every markup text \<open>m\<close> for which \<open>marked.parse\<close> returns \<open>t\<close>: when
  the timer of the markup-direction sync fires with \<open>editor.value\<close> equal to \<open>m\<close>, the rich
  view becomes \<open>t\<close> (the view is known by the HTML it was built from), the markup text stays
  \<open>m\<close>, and the gutter becomes the numbers from 1 to the number of lines of \<open>m\<close>, one more
  than its newlines, joined by \<open><br>\<close>. Then, if the key and \<open>m\<close> fit the quota of the
  storage, the function returns and the value stored under \<open>md_content\<close> is \<open>m\<close>;
  otherwise \<open>setItem\<close> throws, the storage stays as it was and the browser reports the
  exception.
\<close>

theorem sync_from_markup:
  assumes "editor_value w = m" and "marked_parse e m = Inr t"
  shows "\<exists>w'. visual_innerHTML w' = t
           \<and> editor_value w' = m
           \<and> gutter_innerHTML w'
               = join (ascii ''<br>'') (map Number_toString [1..<count_list m nl + 2])
           \<and> (if length md_content + length m \<le> storage_quota e
               then syncCodeToVisual_func e w = Inr w'
                    \<and> run_task e CodeToVisual w = w'
                    \<and> localStorage w' md_content = Some m
               else syncCodeToVisual_func e w = Inl (QuotaExceededError, w')
                    \<and> run_task e CodeToVisual w = w'\<lparr>uncaught := uncaught w @ [QuotaExceededError]\<rparr>
                    \<and> localStorage w' = localStorage w)"
proof (cases "length md_content + length m \<le> storage_quota e")
  case True
  let ?w' = "w\<lparr>visual_innerHTML := t, gutter_innerHTML := gutter_of (editor_value w),
               localStorage := (localStorage w)(md_content \<mapsto> editor_value w)\<rparr>"
  have "syncCodeToVisual_func e w = Inr ?w'"
    using c2v_outcome [of e w t] assms True by simp
  then show ?thesis
    using assms True
    by (intro exI [of _ ?w']) (simp add: run_task_def func_def gutter_of_lines)
next
  case False
  let ?w' = "w\<lparr>visual_innerHTML := t, gutter_innerHTML := gutter_of (editor_value w)\<rparr>"
  have "syncCodeToVisual_func e w = Inl (QuotaExceededError, ?w')"
    using c2v_outcome [of e w t] assms False by simp
  then show ?thesis
    using assms False
    by (intro exI [of _ ?w']) (simp add: run_task_def func_def gutter_of_lines)
qed

theorem sync_from_markup_witness:
  "\<exists>w'. visual_innerHTML w' = ascii ''<p># Title'' @ [nl] @ ascii ''text</p>''
     \<and> editor_value w' = ascii ''# Title'' @ [nl] @ ascii ''text''
     \<and> gutter_innerHTML w' = ascii ''1<br>2''
     \<and> syncCodeToVisual_func example_env
           (blank_page\<lparr>editor_value := ascii ''# Title'' @ [nl] @ ascii ''text''\<rparr>) = Inr w'
     \<and> run_task example_env CodeToVisual
           (blank_page\<lparr>editor_value := ascii ''# Title'' @ [nl] @ ascii ''text''\<rparr>) = w'
     \<and> localStorage w' md_content = Some (ascii ''# Title'' @ [nl] @ ascii ''text'')"
proof -
  let ?m = "ascii ''# Title'' @ [nl] @ ascii ''text''"
  have h1: "editor_value (blank_page\<lparr>editor_value := ?m\<rparr>) = ?m"
    by simp
  have h2: "marked_parse example_env ?m = Inr (ascii ''<p># Title'' @ [nl] @ ascii ''text</p>'')"
    by (simp add: example_env_def ascii_def)
  have q: "length md_content + length ?m \<le> storage_quota example_env"
    by (simp add: example_env_def md_content_def ascii_def)
  have g: "join (ascii ''<br>'') (map Number_toString [1..<count_list ?m nl + 2]) = ascii ''1<br>2''"
    by (simp add: ascii_def nl_def upt_rec Number_toString.simps)
  from sync_from_markup [OF h1 h2] show ?thesis
    by (simp only: q g if_True)
qed

text \<open>
  Claim C2, as stated, fails for a content of the rich view whose markup the storage does
  not hold. With the same quota and a content of 5242868 code units, whose markup has three
  more, the tree-direction sync writes the markup text, then \<open>setItem\<close> throws: the
  exception is reported as uncaught and the converted markup is not stored.
\<close>

theorem sync_from_tree_over_quota:
  "turndown example_env long_content = Inr (ascii ''md:'' @ long_content)
   \<and> editor_value (run_task example_env VisualToCode (blank_page\<lparr>visual_innerHTML := long_content\<rparr>))
       = ascii ''md:'' @ long_content
   \<and> localStorage (run_task example_env VisualToCode (blank_page\<lparr>visual_innerHTML := long_content\<rparr>))
         md_content \<noteq> Some (ascii ''md:'' @ long_content)
   \<and> localStorage (run_task example_env VisualToCode (blank_page\<lparr>visual_innerHTML := long_content\<rparr>))
         md_content = None
   \<and> uncaught (run_task example_env VisualToCode (blank_page\<lparr>visual_innerHTML := long_content\<rparr>))
       = [QuotaExceededError]"
proof -
  let ?w = "blank_page\<lparr>visual_innerHTML := long_content\<rparr>"
  have l: "length long_content = 5242868" by (simp add: long_content_def)
  have k: "length md_content = 10" by (simp add: md_content_def ascii_def)
  have a: "length (ascii ''md:'') = 3" by (simp add: ascii_def)
  have p: "turndown example_env (visual_innerHTML ?w) = Inr (ascii ''md:'' @ long_content)"
    by (simp add: example_env_def)
  have q: "storage_quota example_env = 5242880" by (simp add: example_env_def)
  from v2c_outcome [OF p] obtain w1 where w1:
    "editor_value w1 = ascii ''md:'' @ long_content" "localStorage w1 = localStorage ?w"
    "uncaught w1 = uncaught ?w"
    "syncVisualToCode_func example_env ?w = Inl (QuotaExceededError, w1)"
    by (auto simp: l k a q)
  have "run_task example_env VisualToCode ?w = w1\<lparr>uncaught := uncaught w1 @ [QuotaExceededError]\<rparr>"
    by (simp add: run_task_def func_def w1(4))
  then show ?thesis
    using p by (simp add: w1 blank_page_def)
qed

text \<open>
  Claim C2, amended. For every content \<open>t\<close> of the rich view for which \<open>turndown\<close> returns
  \<open>m\<close>: when the timer of the tree-direction sync fires with \<open>visual.innerHTML\<close> equal to
  \<open>t\<close>, the markup text becomes \<open>m\<close>, the rich view is untouched and the gutter becomes the
  one of \<open>m\<close>. Then, if the key and \<open>m\<close> fit the quota of the storage, the function returns
  and the value stored is \<open>m\<close>; otherwise \<open>setItem\<close> throws, the storage stays as it was
  and the browser reports the exception. In both directions a sync that returns leaves the
  markup text as the stored value, never the content of the rich view.
\<close>

theorem sync_from_tree:
  assumes "visual_innerHTML w = t" and "turndown e t = Inr m"
  shows "(\<exists>w'. editor_value w' = m
            \<and> visual_innerHTML w' = t
            \<and> gutter_innerHTML w'
                = join (ascii ''<br>'') (map Number_toString [1..<count_list m nl + 2])
            \<and> (if length md_content + length m \<le> storage_quota e
                then syncVisualToCode_func e w = Inr w'
                     \<and> run_task e VisualToCode w = w'
                     \<and> localStorage w' md_content = Some m
                else syncVisualToCode_func e w = Inl (QuotaExceededError, w')
                     \<and> run_task e VisualToCode w = w'\<lparr>uncaught := uncaught w @ [QuotaExceededError]\<rparr>
                     \<and> localStorage w' = localStorage w))
         \<and> (\<forall>d v w''. func e d v = Inr w'' \<longrightarrow>
               localStorage w'' md_content = Some (editor_value w''))"
proof -
  from assms v2c_outcome [of e w m] obtain w1 where w1:
    "editor_value w1 = m" "visual_innerHTML w1 = t" "gutter_innerHTML w1 = gutter_of m"
    "localStorage w1 = localStorage w" "uncaught w1 = uncaught w"
    "syncVisualToCode_func e w =
       (if length md_content + length m \<le> storage_quota e
        then Inr (w1\<lparr>localStorage := (localStorage w)(md_content \<mapsto> m)\<rparr>)
        else Inl (QuotaExceededError, w1))"
    by auto
  have "\<exists>w'. editor_value w' = m
            \<and> visual_innerHTML w' = t
            \<and> gutter_innerHTML w'
                = join (ascii ''<br>'') (map Number_toString [1..<count_list m nl + 2])
            \<and> (if length md_content + length m \<le> storage_quota e
                then syncVisualToCode_func e w = Inr w'
                     \<and> run_task e VisualToCode w = w'
                     \<and> localStorage w' md_content = Some m
                else syncVisualToCode_func e w = Inl (QuotaExceededError, w')
                     \<and> run_task e VisualToCode w = w'\<lparr>uncaught := uncaught w @ [QuotaExceededError]\<rparr>
                     \<and> localStorage w' = localStorage w)"
  proof (cases "length md_content + length m \<le> storage_quota e")
    case True
    then show ?thesis
      using w1
      by (intro exI [of _ "w1\<lparr>localStorage := (localStorage w)(md_content \<mapsto> m)\<rparr>"])
         (simp add: run_task_def func_def gutter_of_lines)
  next
    case False
    then show ?thesis
      using w1
      by (intro exI [of _ w1]) (simp add: run_task_def func_def gutter_of_lines)
  qed
  then show ?thesis
    using func_persists_markup by blast
qed

theorem sync_from_tree_witness:
  "\<exists>w'. editor_value w' = ascii ''md:<b>x</b>''
     \<and> visual_innerHTML w' = ascii ''<b>x</b>''
     \<and> gutter_innerHTML w' = ascii ''1''
     \<and> syncVisualToCode_func example_env (blank_page\<lparr>visual_innerHTML := ascii ''<b>x</b>''\<rparr>)
          = Inr w'
     \<and> run_task example_env VisualToCode (blank_page\<lparr>visual_innerHTML := ascii ''<b>x</b>''\<rparr>) = w'
     \<and> localStorage w' md_content = Some (ascii ''md:<b>x</b>'')"
proof -
  have h1: "visual_innerHTML (blank_page\<lparr>visual_innerHTML := ascii ''<b>x</b>''\<rparr>)
              = ascii ''<b>x</b>''"
    by simp
  have h2: "turndown example_env (ascii ''<b>x</b>'') = Inr (ascii ''md:<b>x</b>'')"
    by (simp add: example_env_def ascii_def)
  have q: "length md_content + length (ascii ''md:<b>x</b>'') \<le> storage_quota example_env"
    by (simp add: example_env_def md_content_def ascii_def)
  have g: "join (ascii ''<br>'')
             (map Number_toString [1..<count_list (ascii ''md:<b>x</b>'') nl + 2]) = ascii ''1''"
    by (simp add: ascii_def nl_def upt_rec Number_toString.simps)
  from sync_from_tree [OF h1 h2] show ?thesis
    by (simp only: q g if_True)
qed

section \<open>Debouncing and feedback\<close>

text \<open>
  Claim C3. For every \<open>N \<ge> 1\<close>: let the user edit one view \<open>N\<close> times (the edit \<open>i0\<close>, then
  the \<open>N - 1\<close> edits of \<open>rest\<close>), each edit less than 50 ms after the one before, so that the
  listener calls the wrapper \<open>d\<close> of that view \<open>N\<close> times, and let at least 50 ms pass after
  the last. Then the function of \<open>d\<close> does not run during the burst and runs exactly once
  after it, as the last of the callbacks that fire, on the page as it is at that moment:
  the page of the last edit, after the callbacks \<open>before\<close> of the other wrapper that fire
  first. After the burst the timer table holds one timer of \<open>d\<close>: each call cleared the
  timer of the call before.
\<close>

theorem debounce_burst_fires_once:
  assumes "timers_ok w" and "wrapper_of i0 = d"
    and "list_all (\<lambda>gi. fst gi < 50 \<and> wrapper_of (snd gi) = d) rest"
    and "50 \<le> dt"
  shows "\<exists>before.
           length (filter (\<lambda>t. snd (snd t) = d)
             (timers (snd (burst e rest (dispatch_input i0 w))))) = 1
         \<and> d \<notin> set (fst (burst e rest (dispatch_input i0 w))) \<and> d \<notin> set before
         \<and> elapse e dt (snd (burst e rest (dispatch_input i0 w))) =
             (before @ [d],
              run_task e d
                (foldl (\<lambda>w c. run_task e c w)
                   ((snd (burst e rest (dispatch_input i0 w)))
                      \<lparr>clock := clock (snd (burst e rest (dispatch_input i0 w))) + dt,
                        timers := []\<rparr>)
                   before))
         \<and> length (filter (\<lambda>c. c = d)
               (fst (burst e rest (dispatch_input i0 w))
                @ fst (elapse e dt (snd (burst e rest (dispatch_input i0 w)))))) = 1"
proof -
  let ?w0 = "dispatch_input i0 w"
  let ?w1 = "snd (burst e rest ?w0)"
  from dispatch_input_ok [OF assms(1), of i0] assms(2)
  have "timers_ok ?w0" and "armed d ?w0" by auto
  from burst_quiet [OF assms(3) this]
  have q: "d \<notin> set (fst (burst e rest ?w0))" and ok: "timers_ok ?w1" and a: "armed d ?w1"
    by auto
  let ?before = "map (\<lambda>t. snd (snd t)) (butlast (timers ?w1))"
  from a have nb: "d \<notin> set ?before" by (simp add: armed_def)
  have el: "elapse e dt ?w1 =
      (?before @ [d],
       run_task e d
         (foldl (\<lambda>w c. run_task e c w) (?w1\<lparr>clock := clock ?w1 + dt, timers := []\<rparr>) ?before))"
    using elapse_long [OF ok a assms(4)] .
  have "filter (\<lambda>c. c = d) (fst (burst e rest ?w0)) = []"
    using q by (auto simp: filter_empty_conv)
  moreover have "filter (\<lambda>c. c = d) ?before = []"
    using nb by (auto simp: filter_empty_conv)
  ultimately have "length (filter (\<lambda>c. c = d) (fst (burst e rest ?w0) @ fst (elapse e dt ?w1))) = 1"
    by (simp add: el)
  with q nb el armed_one_timer [OF a] show ?thesis by blast
qed

theorem debounce_burst_fires_once_witness:
  "length (filter (\<lambda>c. c = CodeToVisual)
      (fst (burst example_env example_burst (dispatch_input (EditorInput (ascii ''a'') 1) blank_page))
       @ fst (elapse example_env 50
           (snd (burst example_env example_burst
              (dispatch_input (EditorInput (ascii ''a'') 1) blank_page)))))) = 1
   \<and> fst (elapse example_env 50
        (snd (burst example_env example_burst
           (dispatch_input (EditorInput (ascii ''a'') 1) blank_page)))) = [CodeToVisual]
   \<and> visual_innerHTML (snd (elapse example_env 50
        (snd (burst example_env example_burst
           (dispatch_input (EditorInput (ascii ''a'') 1) blank_page))))) = ascii ''<p>abc</p>''"
proof -
  have h2: "wrapper_of (EditorInput (ascii ''a'') 1) = CodeToVisual"
    by (simp add: wrapper_of_def)
  have h3: "list_all (\<lambda>gi. fst gi < 50 \<and> wrapper_of (snd gi) = CodeToVisual) example_burst"
    by (simp add: example_burst_def wrapper_of_def)
  have h4: "(50::nat) \<le> 50" by simp
  from debounce_burst_fires_once [OF blank_page_ok h2 h3 h4, of example_env]
  have "length (filter (\<lambda>c. c = CodeToVisual)
      (fst (burst example_env example_burst (dispatch_input (EditorInput (ascii ''a'') 1) blank_page))
       @ fst (elapse example_env 50
           (snd (burst example_env example_burst
              (dispatch_input (EditorInput (ascii ''a'') 1) blank_page)))))) = 1"
    by blast
  moreover have "fst (elapse example_env 50
        (snd (burst example_env example_burst
           (dispatch_input (EditorInput (ascii ''a'') 1) blank_page)))) = [CodeToVisual]
   \<and> visual_innerHTML (snd (elapse example_env 50
        (snd (burst example_env example_burst
           (dispatch_input (EditorInput (ascii ''a'') 1) blank_page))))) = ascii ''<p>abc</p>''"
    by (simp add: example_burst_def elapse_def drain_eq dispatch_input_def syncCodeToVisual_def
          debounce_def clearTimeout_def setTimeout_def set_timeout_def get_timeout_def
          blank_page_def due_def Let_def run_task_def func_def syncCodeToVisual_func_def
          example_env_def saveToLocal_def updateGutter_def ascii_def)
  ultimately show ?thesis by simp
qed

text \<open>
  Claim C4. The function of a sync starts no timer and writes neither wrapper's \<open>timeout\<close>:
  its assignment to the other view dispatches no \<open>input\<close> event, so no listener runs. Hence
  the event loop runs each due timer once and leaves the table without them, and while each
  wrapper has at most one timer, its function runs at most once.
\<close>

theorem sync_schedules_no_sync:
  "timers (run_task e d w) = timers w
   \<and> next_timer (run_task e d w) = next_timer w
   \<and> get_timeout d' (run_task e d w) = get_timeout d' w
   \<and> fst (drain e w) = map (\<lambda>t. snd (snd t)) (filter (due w) (timers w))
   \<and> timers (snd (drain e w)) = filter (\<lambda>t. \<not> due w t) (timers w)
   \<and> (timers_ok w \<longrightarrow> length (filter (\<lambda>c. c = d) (fst (drain e w))) \<le> 1)"
proof -
  have "length (filter (\<lambda>c. c = d) (fst (drain e w))) \<le> 1" if ok: "timers_ok w"
  proof -
    have "length (filter (\<lambda>c. c = d) (fst (drain e w)))
        = length (filter (due w) (filter (\<lambda>t. snd (snd t) = d) (timers w)))"
      by (simp add: drain_eq filter_map comp_def) (metis (mono_tags, lifting) filter_cong)
    also have "\<dots> \<le> length (filter (\<lambda>t. snd (snd t) = d) (timers w))"
      by (rule length_filter_le)
    also have "\<dots> \<le> 1" using ok by (rule timers_ok_at_most_one)
    finally show ?thesis .
  qed
  then show ?thesis
    by (simp add: drain_eq get_timeout_def split: debounced.splits)
qed

theorem sync_schedules_no_sync_witness:
  "timers (run_task example_env CodeToVisual pending_page) = [(1, 50, CodeToVisual)]
   \<and> fst (drain example_env pending_page) = [CodeToVisual]
   \<and> timers (snd (drain example_env pending_page)) = []
   \<and> length (filter (\<lambda>c. c = CodeToVisual) (fst (drain example_env pending_page))) \<le> 1"
proof -
  have ok: "timers_ok pending_page"
    by (simp add: timers_ok_def pending_page_def blank_page_def get_timeout_def)
  have t: "timers pending_page = [(1, 50, CodeToVisual)]" and c: "clock pending_page = 50"
    by (simp_all add: pending_page_def)
  show ?thesis
    using sync_schedules_no_sync [of example_env CodeToVisual pending_page CodeToVisual] ok
    by (simp add: t c due_def)
qed

section \<open>A converter that throws\<close>

text \<open>
  Claim C5. If \<open>marked.parse\<close> throws \<open>x\<close> during the markup-direction sync, or \<open>turndown\<close>
  during the tree-direction sync, the function of the sync ends with \<open>x\<close> before its first
  assignment: after the task the page is the page from before it (both views, the gutter, the
  stored value, the timers and the wrappers) but for the exception, which the browser
  reports as uncaught. Nothing of the page remembers the failure, so the next sync runs as
  any other.
\<close>

theorem converter_failure:
  "(marked_parse e (editor_value w) = Inl x \<longrightarrow>
      syncCodeToVisual_func e w = Inl (x, w)
      \<and> run_task e CodeToVisual w = w\<lparr>uncaught := uncaught w @ [x]\<rparr>)
   \<and> (turndown e (visual_innerHTML w) = Inl x \<longrightarrow>
      syncVisualToCode_func e w = Inl (x, w)
      \<and> run_task e VisualToCode w = w\<lparr>uncaught := uncaught w @ [x]\<rparr>)"
  by (simp add: run_task_def func_def syncCodeToVisual_func_def syncVisualToCode_func_def)

theorem converter_failure_witness:
  "syncCodeToVisual_func failing_env blank_page = Inl (Thrown (ascii ''render''), blank_page)
   \<and> run_task failing_env CodeToVisual blank_page
       = blank_page\<lparr>uncaught := [Thrown (ascii ''render'')]\<rparr>
   \<and> syncVisualToCode_func failing_env blank_page
       = Inl (Thrown (ascii ''serialize''), blank_page)
   \<and> run_task failing_env VisualToCode blank_page
       = blank_page\<lparr>uncaught := [Thrown (ascii ''serialize'')]\<rparr>"
proof -
  have h1: "marked_parse failing_env (editor_value blank_page) = Inl (Thrown (ascii ''render''))"
    by (simp add: failing_env_def)
  have h2: "turndown failing_env (visual_innerHTML blank_page) = Inl (Thrown (ascii ''serialize''))"
    by (simp add: failing_env_def)
  have u: "uncaught blank_page = []" by (simp add: blank_page_def)
  show ?thesis
    using converter_failure [of failing_env blank_page "Thrown (ascii ''render'')"]
      converter_failure [of failing_env blank_page "Thrown (ascii ''serialize'')"] h1 h2 u
    by simp
qed

section \<open>Commands\<close>

text \<open>
  Claim C6, as stated, fails for clear-document. On a page with a document in both views,
  nothing stored and no timer, \<open>clearAll\<close> with the user's confirmation changes both views
  and the stored value itself and starts no timer: no sync is pending after it, and none
  runs when 50 ms have passed.
\<close>

theorem clear_bypasses_sync:
  "editor_value (run_command example_env (ClearAll True) example_doc) \<noteq> editor_value example_doc
   \<and> visual_innerHTML (run_command example_env (ClearAll True) example_doc)
       \<noteq> visual_innerHTML example_doc
   \<and> localStorage example_doc md_content = None
   \<and> localStorage (run_command example_env (ClearAll True) example_doc) md_content = Some []
   \<and> timers (run_command example_env (ClearAll True) example_doc) = []
   \<and> fst (elapse example_env 50 (run_command example_env (ClearAll True) example_doc)) = []"
proof -
  have q: "length md_content \<le> storage_quota example_env"
    by (simp add: example_env_def md_content_def ascii_def)
  have t: "timers example_doc = []" by (simp add: example_doc_def blank_page_def)
  from clearAll_confirmed [of example_env example_doc] q t
  have "editor_value (run_command example_env (ClearAll True) example_doc) = []"
    and "visual_innerHTML (run_command example_env (ClearAll True) example_doc) = []"
    and "localStorage (run_command example_env (ClearAll True) example_doc) md_content = Some []"
    and "timers (run_command example_env (ClearAll True) example_doc) = []"
    by (simp_all add: sched_def)
  then show ?thesis
    by (simp add: elapse_def drain_eq) (simp add: example_doc_def blank_page_def ascii_def)
qed

text \<open>
  Claim C6, amended. Every command that changes a view, other than a confirmed
  clear-document, funnels its change through the sync path of direct user edits: it calls
  the debounced wrapper of the changed view's direction (\<open>execCmd\<close> the tree-direction one,
  the three insertions the markup-direction one), so that 50 ms later the sync of that
  direction runs, as the last of the callbacks that fire, on the page as it is by then. When
  no sync of the other direction was pending, it is the only callback that fires, the
  changed view is still as the command left it, and the other view is what the converter
  returns for it. A confirmed clear-document bypasses that path: it empties both views,
  sets the gutter to its one line and stores the empty text itself (when the quota holds
  the key), and neither starts a timer nor writes a wrapper's \<open>timeout\<close>.
\<close>

theorem commands_schedule_sync_except_clear:
  assumes "timers_ok w" and "50 \<le> dt"
  shows "(c \<noteq> ClearAll True
          \<and> (editor_value (run_command e c w) \<noteq> editor_value w
              \<or> visual_innerHTML (run_command e c w) \<noteq> visual_innerHTML w) \<longrightarrow>
          (\<exists>d before.
             d = (if editor_value (run_command e c w) \<noteq> editor_value w
                  then CodeToVisual else VisualToCode)
           \<and> d \<notin> set before
           \<and> elapse e dt (run_command e c w) =
               (before @ [d],
                run_task e d
                  (foldl (\<lambda>w c. run_task e c w)
                     ((run_command e c w)
                        \<lparr>clock := clock (run_command e c w) + dt, timers := []\<rparr>)
                     before))))
       \<and> (c \<noteq> ClearAll True \<and> only CodeToVisual w
          \<and> editor_value (run_command e c w) \<noteq> editor_value w \<longrightarrow>
            fst (elapse e dt (run_command e c w)) = [CodeToVisual]
          \<and> editor_value (snd (elapse e dt (run_command e c w))) = editor_value (run_command e c w)
          \<and> (\<forall>t. marked_parse e (editor_value (run_command e c w)) = Inr t \<longrightarrow>
                visual_innerHTML (snd (elapse e dt (run_command e c w))) = t))
       \<and> (c \<noteq> ClearAll True \<and> only VisualToCode w
          \<and> editor_value (run_command e c w) = editor_value w
          \<and> visual_innerHTML (run_command e c w) \<noteq> visual_innerHTML w \<longrightarrow>
            fst (elapse e dt (run_command e c w)) = [VisualToCode]
          \<and> visual_innerHTML (snd (elapse e dt (run_command e c w)))
              = visual_innerHTML (run_command e c w)
          \<and> (\<forall>m. turndown e (visual_innerHTML (run_command e c w)) = Inr m \<longrightarrow>
                editor_value (snd (elapse e dt (run_command e c w))) = m))
       \<and> editor_value (run_command e (ClearAll True) w) = []
       \<and> visual_innerHTML (run_command e (ClearAll True) w) = []
       \<and> gutter_innerHTML (run_command e (ClearAll True) w) = ascii ''1''
       \<and> (length md_content \<le> storage_quota e \<longrightarrow>
            localStorage (run_command e (ClearAll True) w) md_content = Some [])
       \<and> timers (run_command e (ClearAll True) w) = timers w
       \<and> next_timer (run_command e (ClearAll True) w) = next_timer w
       \<and> timeout_c2v (run_command e (ClearAll True) w) = timeout_c2v w
       \<and> timeout_v2c (run_command e (ClearAll True) w) = timeout_v2c w"
proof -
  let ?r = "run_command e c w"
  let ?d = "if editor_value ?r \<noteq> editor_value w then CodeToVisual else VisualToCode"
  have armed: "timers_ok ?r \<and> armed ?d ?r \<and> (only ?d w \<longrightarrow> only ?d ?r)"
    if "c \<noteq> ClearAll True"
      and "editor_value ?r \<noteq> editor_value w \<or> visual_innerHTML ?r \<noteq> visual_innerHTML w"
    using command_outcome [OF assms(1) that(1), of e] that(2) by auto
  have A: "\<exists>d before. d = ?d \<and> d \<notin> set before
      \<and> elapse e dt ?r =
          (before @ [d],
           run_task e d
             (foldl (\<lambda>w c. run_task e c w) (?r\<lparr>clock := clock ?r + dt, timers := []\<rparr>) before))"
    if c: "c \<noteq> ClearAll True"
      and ch: "editor_value ?r \<noteq> editor_value w \<or> visual_innerHTML ?r \<noteq> visual_innerHTML w"
  proof -
    from armed [OF c ch] have ok: "timers_ok ?r" and a: "armed ?d ?r" by simp_all
    from a have "?d \<notin> set (map (\<lambda>t. snd (snd t)) (butlast (timers ?r)))"
      by (simp add: armed_def)
    with elapse_long [OF ok a assms(2), of e] show ?thesis by blast
  qed
  have B: "fst (elapse e dt ?r) = [CodeToVisual]
      \<and> editor_value (snd (elapse e dt ?r)) = editor_value ?r
      \<and> (\<forall>t. marked_parse e (editor_value ?r) = Inr t \<longrightarrow>
            visual_innerHTML (snd (elapse e dt ?r)) = t)"
    if c: "c \<noteq> ClearAll True" and o: "only CodeToVisual w"
      and ch: "editor_value ?r \<noteq> editor_value w"
  proof -
    from armed [OF c] ch o
    have ok: "timers_ok ?r" and a: "armed CodeToVisual ?r" and o': "only CodeToVisual ?r"
      by simp_all
    let ?p = "?r\<lparr>clock := clock ?r + dt, timers := []\<rparr>"
    have el: "elapse e dt ?r = ([CodeToVisual], run_task e CodeToVisual ?p)"
      using elapse_alone [OF ok a o' assms(2)] .
    show ?thesis
      using run_task_c2v_views [of e ?p] by (simp add: el)
  qed
  have C: "fst (elapse e dt ?r) = [VisualToCode]
      \<and> visual_innerHTML (snd (elapse e dt ?r)) = visual_innerHTML ?r
      \<and> (\<forall>m. turndown e (visual_innerHTML ?r) = Inr m \<longrightarrow>
            editor_value (snd (elapse e dt ?r)) = m)"
    if c: "c \<noteq> ClearAll True" and o: "only VisualToCode w"
      and same: "editor_value ?r = editor_value w"
      and ch: "visual_innerHTML ?r \<noteq> visual_innerHTML w"
  proof -
    from armed [OF c] same ch o
    have ok: "timers_ok ?r" and a: "armed VisualToCode ?r" and o': "only VisualToCode ?r"
      by simp_all
    let ?p = "?r\<lparr>clock := clock ?r + dt, timers := []\<rparr>"
    have el: "elapse e dt ?r = ([VisualToCode], run_task e VisualToCode ?p)"
      using elapse_alone [OF ok a o' assms(2)] .
    show ?thesis
      using run_task_v2c_views [of e ?p] by (simp add: el)
  qed
  have D: "editor_value (run_command e (ClearAll True) w) = []
       \<and> visual_innerHTML (run_command e (ClearAll True) w) = []
       \<and> gutter_innerHTML (run_command e (ClearAll True) w) = ascii ''1''
       \<and> (length md_content \<le> storage_quota e \<longrightarrow>
            localStorage (run_command e (ClearAll True) w) md_content = Some [])
       \<and> timers (run_command e (ClearAll True) w) = timers w
       \<and> next_timer (run_command e (ClearAll True) w) = next_timer w
       \<and> timeout_c2v (run_command e (ClearAll True) w) = timeout_c2v w
       \<and> timeout_v2c (run_command e (ClearAll True) w) = timeout_v2c w"
    using clearAll_confirmed [of e w] by (simp add: sched_def split: if_splits)
  from A B C D show ?thesis by blast
qed

theorem commands_schedule_sync_except_clear_witness:
  "elapse example_env 50 (run_command example_env InsertCode example_doc)
     = ([CodeToVisual],
        run_task example_env CodeToVisual
          ((run_command example_env InsertCode example_doc)
             \<lparr>clock := clock (run_command example_env InsertCode example_doc) + 50, timers := []\<rparr>))
   \<and> editor_value (snd (elapse example_env 50 (run_command example_env InsertCode example_doc)))
       = code_block @ ascii ''x''
   \<and> visual_innerHTML (snd (elapse example_env 50 (run_command example_env InsertCode example_doc)))
       = ascii ''<p>'' @ code_block @ ascii ''x</p>''
   \<and> editor_value (run_command example_env (ClearAll True) example_doc) = []
   \<and> visual_innerHTML (run_command example_env (ClearAll True) example_doc) = []
   \<and> gutter_innerHTML (run_command example_env (ClearAll True) example_doc) = ascii ''1''
   \<and> localStorage (run_command example_env (ClearAll True) example_doc) md_content = Some []
   \<and> timers (run_command example_env (ClearAll True) example_doc) = []"
proof -
  let ?r = "run_command example_env InsertCode example_doc"
  have h1: "timers_ok example_doc"
    by (simp add: timers_ok_def example_doc_def blank_page_def)
  have h2: "(50::nat) \<le> 50" by simp
  have t: "timers example_doc = []" by (simp add: example_doc_def blank_page_def)
  have o: "only CodeToVisual example_doc" by (simp add: only_def t)
  have v: "editor_value ?r = code_block @ ascii ''x''"
    by (simp add: run_command_def insertCode_def insertText_content replace_selection_def
          example_doc_def blank_page_def)
  have ch: "editor_value ?r \<noteq> editor_value example_doc"
    by (simp add: v) (simp add: example_doc_def blank_page_def code_block_def)
  have p: "marked_parse example_env (editor_value ?r) = Inr (ascii ''<p>'' @ code_block @ ascii ''x</p>'')"
    by (simp only: v) (simp add: example_env_def ascii_def)
  have q: "length md_content \<le> storage_quota example_env"
    by (simp add: example_env_def md_content_def ascii_def)
  note inst = commands_schedule_sync_except_clear [OF h1 h2, of InsertCode example_env]
  from inst ch obtain before where b: "CodeToVisual \<notin> set before"
    "elapse example_env 50 ?r =
       (before @ [CodeToVisual],
        run_task example_env CodeToVisual
          (foldl (\<lambda>w c. run_task example_env c w) (?r\<lparr>clock := clock ?r + 50, timers := []\<rparr>) before))"
    by auto
  from inst ch o have f: "fst (elapse example_env 50 ?r) = [CodeToVisual]"
    and ed: "editor_value (snd (elapse example_env 50 ?r)) = editor_value ?r"
    and vi: "\<forall>t. marked_parse example_env (editor_value ?r) = Inr t \<longrightarrow>
                visual_innerHTML (snd (elapse example_env 50 ?r)) = t"
    by simp_all
  from b f have "before = []" by simp
  with b have "elapse example_env 50 ?r
     = ([CodeToVisual], run_task example_env CodeToVisual (?r\<lparr>clock := clock ?r + 50, timers := []\<rparr>))"
    by simp
  moreover from vi p have "visual_innerHTML (snd (elapse example_env 50 ?r))
       = ascii ''<p>'' @ code_block @ ascii ''x</p>''" by blast
  moreover from inst q t have "editor_value (run_command example_env (ClearAll True) example_doc) = []"
    "visual_innerHTML (run_command example_env (ClearAll True) example_doc) = []"
    "gutter_innerHTML (run_command example_env (ClearAll True) example_doc) = ascii ''1''"
    "localStorage (run_command example_env (ClearAll True) example_doc) md_content = Some []"
    "timers (run_command example_env (ClearAll True) example_doc) = []"
    by simp_all
  ultimately show ?thesis using ed v by simp
qed

text \<open>
  Claim C7. When the prompt of the insert-table command is confirmed with 3 rows and 2
  columns, the selection of the markup text is replaced by a table block of one header row
  with 2 cells, one separator row with 2 cells and 2 data rows; afterwards the timer table
  holds one timer of the markup-direction sync, and when 50 ms have passed that sync has run
  exactly once.
\<close>

theorem insert_table_3_by_2:
  assumes "timers_ok w" and "a \<in> confirm_3_by_2" and "50 \<le> dt"
  shows "editor_value (run_command e (InsertMarkdownTable a) w)
           = take (selectionStart w) (editor_value w) @ table_3_by_2
             @ drop (selectionEnd w) (editor_value w)
       \<and> length (filter (\<lambda>t. snd (snd t) = CodeToVisual)
           (timers (run_command e (InsertMarkdownTable a) w))) = 1
       \<and> length (filter (\<lambda>c. c = CodeToVisual)
           (fst (elapse e dt (run_command e (InsertMarkdownTable a) w)))) = 1"
proof -
  define p where "p = table_prompt_closed w"
  have r: "run_command e (InsertMarkdownTable a) w = insertTextAtCursor e table_3_by_2 0 p"
    and d: "doc p = doc w" and s: "sched p = sched w"
    using table_confirmed [OF assms(2), of e w] by (simp_all add: p_def)
  have okp: "timers_ok p" using assms(1) sched_timers_ok [OF s] by simp
  from insertText_scheduled [OF okp, of e table_3_by_2 0]
  have ok: "timers_ok (run_command e (InsertMarkdownTable a) w)"
    and ar: "armed CodeToVisual (run_command e (InsertMarkdownTable a) w)"
    by (simp_all add: r)
  have "editor_value (run_command e (InsertMarkdownTable a) w) = replace_selection table_3_by_2 p"
    by (simp add: r insertText_content)
  also have "\<dots> = take (selectionStart w) (editor_value w) @ table_3_by_2
             @ drop (selectionEnd w) (editor_value w)"
    using doc_fields [OF d] by (simp add: replace_selection_def)
  finally show ?thesis
    using armed_one_timer [OF ar] fired_once [OF ok ar assms(3), of e] by simp
qed

theorem insert_table_3_by_2_witness:
  "editor_value (run_command example_env (InsertMarkdownTable (Confirm [])) example_doc)
     = table_3_by_2 @ ascii ''x''
   \<and> table_3_by_2 =
       [0x0A,
        0x7C, 0x20, 0x5DB, 0x5D5, 0x5EA, 0x5E8, 0x5EA, 0x20, 0x31, 0x20,
        0x7C, 0x20, 0x5DB, 0x5D5, 0x5EA, 0x5E8, 0x5EA, 0x20, 0x32, 0x20, 0x7C, 0x0A,
        0x7C, 0x20, 0x2D, 0x2D, 0x2D, 0x20, 0x7C, 0x20, 0x2D, 0x2D, 0x2D, 0x20, 0x7C, 0x0A,
        0x7C, 0x20, 0x5E0, 0x5EA, 0x5D5, 0x5E0, 0x5D9, 0x5DD, 0x20,
        0x7C, 0x20, 0x5E0, 0x5EA, 0x5D5, 0x5E0, 0x5D9, 0x5DD, 0x20, 0x7C, 0x0A,
        0x7C, 0x20, 0x5E0, 0x5EA, 0x5D5, 0x5E0, 0x5D9, 0x5DD, 0x20,
        0x7C, 0x20, 0x5E0, 0x5EA, 0x5D5, 0x5E0, 0x5D9, 0x5DD, 0x20, 0x7C, 0x0A,
        0x0A]
   \<and> length (filter (\<lambda>t. snd (snd t) = CodeToVisual)
        (timers (run_command example_env (InsertMarkdownTable (Confirm [])) example_doc))) = 1
   \<and> length (filter (\<lambda>c. c = CodeToVisual)
        (fst (elapse example_env 50
           (run_command example_env (InsertMarkdownTable (Confirm [])) example_doc)))) = 1"
proof -
  have h1: "timers_ok example_doc"
    by (simp add: timers_ok_def example_doc_def blank_page_def)
  have h2: "Confirm [] \<in> confirm_3_by_2" by (simp add: confirm_3_by_2_def)
  have h3: "(50::nat) \<le> 50" by simp
  have t: "table_3_by_2 =
       [0x0A,
        0x7C, 0x20, 0x5DB, 0x5D5, 0x5EA, 0x5E8, 0x5EA, 0x20, 0x31, 0x20,
        0x7C, 0x20, 0x5DB, 0x5D5, 0x5EA, 0x5E8, 0x5EA, 0x20, 0x32, 0x20, 0x7C, 0x0A,
        0x7C, 0x20, 0x2D, 0x2D, 0x2D, 0x20, 0x7C, 0x20, 0x2D, 0x2D, 0x2D, 0x20, 0x7C, 0x0A,
        0x7C, 0x20, 0x5E0, 0x5EA, 0x5D5, 0x5E0, 0x5D9, 0x5DD, 0x20,
        0x7C, 0x20, 0x5E0, 0x5EA, 0x5D5, 0x5E0, 0x5D9, 0x5DD, 0x20, 0x7C, 0x0A,
        0x7C, 0x20, 0x5E0, 0x5EA, 0x5D5, 0x5E0, 0x5D9, 0x5DD, 0x20,
        0x7C, 0x20, 0x5E0, 0x5EA, 0x5D5, 0x5E0, 0x5D9, 0x5DD, 0x20, 0x7C, 0x0A,
        0x0A]"
    by (simp add: table_3_by_2_def table_row_def header_word_def data_word_def ascii_def nl_def)
  have s: "selectionStart example_doc = 0" "selectionEnd example_doc = 0"
    "editor_value example_doc = ascii ''x''"
    by (simp_all add: example_doc_def blank_page_def)
  from insert_table_3_by_2 [OF h1 h2 h3, of example_env] show ?thesis
    by (simp only: s t take_0 drop_0 append_Nil simp_thms)
qed

text \<open>
  Claim C8. When the prompt of insert-image or of insert-table is cancelled, the command
  leaves the markup text, the rich view, the stored values, the gutter and the selection as
  they were, starts no timer and reports nothing. Each of the two commands returns at once
  on \<open>null\<close>, and a click on cancel changes neither view, the storage nor the timers
  whatever the page on which it happens.
\<close>

theorem cancelled_prompt_changes_nothing:
  assumes "c = InsertImage Cancel \<or> c = InsertMarkdownTable Cancel"
  shows "editor_value (run_command e c w) = editor_value w
       \<and> visual_innerHTML (run_command e c w) = visual_innerHTML w
       \<and> localStorage (run_command e c w) = localStorage w
       \<and> gutter_innerHTML (run_command e c w) = gutter_innerHTML w
       \<and> selectionStart (run_command e c w) = selectionStart w
       \<and> selectionEnd (run_command e c w) = selectionEnd w
       \<and> timers (run_command e c w) = timers w
       \<and> next_timer (run_command e c w) = next_timer w
       \<and> timeout_c2v (run_command e c w) = timeout_c2v w
       \<and> timeout_v2c (run_command e c w) = timeout_v2c w
       \<and> uncaught (run_command e c w) = uncaught w
       \<and> resume e k None w = Inr w
       \<and> editor_value (modalCancel_onclick e w) = editor_value w
       \<and> visual_innerHTML (modalCancel_onclick e w) = visual_innerHTML w
       \<and> localStorage (modalCancel_onclick e w) = localStorage w
       \<and> timers (modalCancel_onclick e w) = timers w"
  using assms
  by (auto simp: run_command_def respond_def insertImage_def insertMarkdownTable_def
        showCustomPrompt_def modalCancel_onclick_def close_def resume_null
        split: option.splits)

theorem cancelled_prompt_changes_nothing_witness:
  "editor_value (run_command example_env (InsertImage Cancel) example_doc) = ascii ''x''
   \<and> visual_innerHTML (run_command example_env (InsertImage Cancel) example_doc) = ascii ''<p>x</p>''
   \<and> localStorage (run_command example_env (InsertImage Cancel) example_doc) md_content = None
   \<and> timers (run_command example_env (InsertImage Cancel) example_doc) = []"
proof -
  have h: "InsertImage Cancel = InsertImage Cancel \<or> InsertImage Cancel = InsertMarkdownTable Cancel"
    by simp
  from cancelled_prompt_changes_nothing [OF h, of example_env example_doc] show ?thesis
    by (simp add: example_doc_def blank_page_def)
qed

section \<open>Session start\<close>

text \<open>
  Claim C9. At load, when nothing is stored under \<open>md_content\<close> and no timer is pending, the
  markup text becomes the default document; when at least 50 ms have passed and
  \<open>marked.parse\<close> returns \<open>t\<close> for the default document, the markup-direction sync has run
  once, the rich view holds \<open>t\<close> and the markup text is still the default document.
\<close>

theorem load_without_stored_value:
  assumes "localStorage w md_content = None" and "timers w = []"
    and "marked_parse e default_document = Inr t" and "50 \<le> dt"
  shows "editor_value (window_onload w) = default_document
       \<and> fst (elapse e dt (window_onload w)) = [CodeToVisual]
       \<and> visual_innerHTML (snd (elapse e dt (window_onload w))) = t
       \<and> editor_value (snd (elapse e dt (window_onload w))) = default_document"
proof -
  let ?w = "window_onload w"
  have v: "editor_value ?w = default_document"
    using assms(1) by (simp add: onload_value string_or_def)
  have "elapse e dt ?w = ([CodeToVisual], run_task e CodeToVisual (?w\<lparr>clock := clock w + dt, timers := []\<rparr>))"
    using assms(4) onload_timers [OF assms(2)]
    by (simp add: elapse_def drain_eq due_def)
  moreover have "visual_innerHTML (run_task e CodeToVisual (?w\<lparr>clock := clock w + dt, timers := []\<rparr>)) = t"
    using run_task_c2v_views(2) [of e "?w\<lparr>clock := clock w + dt, timers := []\<rparr>" t] v assms(3)
    by simp
  moreover have "editor_value (run_task e CodeToVisual (?w\<lparr>clock := clock w + dt, timers := []\<rparr>))
      = default_document"
    using v by (simp add: run_task_c2v_views(1))
  ultimately show ?thesis using v by simp
qed

theorem load_without_stored_value_witness:
  "editor_value (window_onload blank_page) = default_document
   \<and> fst (elapse example_env 50 (window_onload blank_page)) = [CodeToVisual]
   \<and> visual_innerHTML (snd (elapse example_env 50 (window_onload blank_page)))
       = ascii ''<p>'' @ default_document @ ascii ''</p>''
   \<and> editor_value (snd (elapse example_env 50 (window_onload blank_page))) = default_document"
proof -
  have h1: "localStorage blank_page md_content = None" by (simp add: blank_page_def)
  have h2: "timers blank_page = []" by (simp add: blank_page_def)
  have h3: "marked_parse example_env default_document
              = Inr (ascii ''<p>'' @ default_document @ ascii ''</p>'')"
    by (simp add: example_env_def)
  have h4: "(50::nat) \<le> 50" by simp
  show ?thesis using load_without_stored_value [OF h1 h2 h3 h4] .
qed

text \<open>
  Claim C10. At load, a stored value that is the empty string gives the same markup text as no
  stored value: the default document, not the empty text.
\<close>

theorem load_with_empty_stored_value:
  assumes "localStorage w md_content = Some []"
  shows "editor_value (window_onload w) = default_document
       \<and> editor_value (window_onload w)
           = editor_value (window_onload (w\<lparr>localStorage := (localStorage w)(md_content := None)\<rparr>))
       \<and> editor_value (window_onload w) \<noteq> []"
  using assms by (simp add: onload_value string_or_def default_document_def ascii_def)

theorem load_with_empty_stored_value_witness:
  "editor_value (window_onload (blank_page\<lparr>localStorage := [md_content \<mapsto> []]\<rparr>)) = default_document
   \<and> editor_value (window_onload (blank_page\<lparr>localStorage := [md_content \<mapsto> []]\<rparr>)) \<noteq> []"
proof -
  have h: "localStorage (blank_page\<lparr>localStorage := [md_content \<mapsto> []]\<rparr>) md_content = Some []"
    by simp
  show ?thesis using load_with_empty_stored_value [OF h] by blast
qed

end
